theory Spec2Isabelle
  imports Complex_Main
begin

section \<open>Tile registration (odemis/acq/stitching/\_registrar.py)\<close>

text \<open>
  A shallow embedding of the two registrars of \<^verbatim>\<open>_registrar.py\<close>.

  Numbers. Python \<^verbatim>\<open>int\<close> is \<^typ>\<open>int\<close>. Python \<^verbatim>\<open>float\<close> is idealised as
  \<^typ>\<open>real\<close>: rounding is not modelled, so where a float operation of the source
  rounds (the overlap and the sizes derived from it in \<^verbatim>\<open>addTile\<close>, the score of
  \<^verbatim>\<open>_estimateMatch\<close>), the value of the model is the exact one and can differ from
  the value of the code in the last place, and after \<^verbatim>\<open>int()\<close> by one pixel. Pixels
  are integers without bound: the wrap-around of a numpy sum over a fixed-width integer
  array is not modelled either. The results below are about the control flow, the
  errors raised and the slots and lists written, or evaluate inputs on which every
  operation is exact in floating point. The one float value of the module that is not
  a real number is the NaN that \<^verbatim>\<open>_estimateMatch\<close> computes from an empty region
  (numpy divides \<open>0\<close> by the region size \<open>0\<close>); match scores therefore have their own
  type with a NaN, and the comparisons of the source are false on it.

  Errors. Every \<^verbatim>\<open>raise\<close> of the module is a \<^verbatim>\<open>ValueError\<close>; the four
  places are told apart by a tag. Reads and writes of the grid lists are checked, with
  Python's negative indices, and fail with \<open>IndexError\<close> out of range.

  \<^verbatim>\<open>MeasureShift\<close> (odemis.acq.drift) is not part of the module: every function
  that calls it takes it as the parameter \<open>ms\<close>, a function from two pixel regions to
  a pair of integers.
\<close>

subsection \<open>Constants\<close>

definition BEST_MATCH :: real where "BEST_MATCH = 9 / 10"
definition GOOD_MATCH :: real where "GOOD_MATCH = 2 / 10"
definition EXTREME_SHIFT :: real where "EXTREME_SHIFT = 6 / 10"

definition LEFT :: int where "LEFT = 1"
definition RIGHT :: int where "RIGHT = - 1"

subsection \<open>Errors, tiles, Python lists\<close>

datatype value_error = ShapeMismatch | OrderingError | NoOverlap | NotEnoughData

datatype error =
    ValueError value_error
  | IndexError
  | TypeError
  | AttributeError
  | UnboundLocalError
  | ZeroDivisionError

text \<open>A tile: the pixel array (a list of rows) and the two metadata entries read.\<close>

record tile =
  pixels :: "int list list"
  md_pos :: "real \<times> real"
  md_pixel_size :: "real \<times> real"

text \<open>\<^verbatim>\<open>tile.shape\<close>, as (Y, X).\<close>

definition shape :: "'a list list \<Rightarrow> nat \<times> nat" where
  "shape a = (length a, (case a of [] \<Rightarrow> 0 | r # _ \<Rightarrow> length r))"

text \<open>\<^verbatim>\<open>int(x)\<close> on a float: truncation towards zero.\<close>

definition py_int :: "real \<Rightarrow> int" where
  "py_int x = (if 0 \<le> x then \<lfloor>x\<rfloor> else \<lceil>x\<rceil>)"

definition hypot :: "real \<Rightarrow> real \<Rightarrow> real" where
  "hypot x y = sqrt (x * x + y * y)"

text \<open>The position of Python index \<open>i\<close> in a list of length \<open>n\<close>.\<close>

definition py_index :: "nat \<Rightarrow> int \<Rightarrow> nat option" where
  "py_index n i =
     (if 0 \<le> i \<and> i < int n then Some (nat i)
      else if i < 0 \<and> - int n \<le> i then Some (nat (int n + i))
      else None)"

definition py_get :: "'a list \<Rightarrow> int \<Rightarrow> error + 'a" where
  "py_get xs i = (case py_index (length xs) i of None \<Rightarrow> Inl IndexError | Some k \<Rightarrow> Inr (xs ! k))"

definition py_set :: "'a list \<Rightarrow> int \<Rightarrow> 'a \<Rightarrow> error + 'a list" where
  "py_set xs i v =
     (case py_index (length xs) i of None \<Rightarrow> Inl IndexError | Some k \<Rightarrow> Inr (xs[k := v]))"

text \<open>\<^verbatim>\<open>g[r][c]\<close> and \<^verbatim>\<open>g[r][c] = v\<close>.\<close>

definition get2 :: "'a list list \<Rightarrow> int \<Rightarrow> int \<Rightarrow> error + 'a" where
  "get2 g r c = (case py_get g r of Inl e \<Rightarrow> Inl e | Inr row \<Rightarrow> py_get row c)"

definition set2 :: "'a list list \<Rightarrow> int \<Rightarrow> int \<Rightarrow> 'a \<Rightarrow> error + 'a list list" where
  "set2 g r c v =
     (case py_get g r of
        Inl e \<Rightarrow> Inl e
      | Inr row \<Rightarrow>
          (case py_set row c v of
             Inl e \<Rightarrow> Inl e
           | Inr row' \<Rightarrow> py_set g r row'))"

subsection \<open>IdentityRegistrar\<close>

record identity_registrar =
  tile_pos :: "(real \<times> real) list"
  dep_tiles_pos :: "(real \<times> real) list list"

definition identity_init :: identity_registrar where
  "identity_init = \<lparr>tile_pos = [], dep_tiles_pos = []\<rparr>"

text \<open>\<^verbatim>\<open>if dependent_tiles:\<close> holds for a list that is neither None nor empty.\<close>

definition identity_addTile ::
  "identity_registrar \<Rightarrow> tile \<Rightarrow> tile list option \<Rightarrow> identity_registrar" where
  "identity_addTile s t dependent_tiles =
     (let s1 = s\<lparr>tile_pos := tile_pos s @ [md_pos t]\<rparr>
      in case dependent_tiles of
           None \<Rightarrow> s1
         | Some ds \<Rightarrow>
             (if ds \<noteq> [] then s1\<lparr>dep_tiles_pos := dep_tiles_pos s1 @ [map md_pos ds]\<rparr>
              else s1))"

definition identity_getPositions ::
  "identity_registrar \<Rightarrow> (real \<times> real) list \<times> (real \<times> real) list list" where
  "identity_getPositions s = (tile_pos s, dep_tiles_pos s)"

text \<open>A session: the calls of \<^verbatim>\<open>addTile\<close> in order, each with its arguments.\<close>

fun identity_run ::
  "identity_registrar \<Rightarrow> (tile \<times> tile list option) list \<Rightarrow> identity_registrar" where
  "identity_run s [] = s"
| "identity_run s ((t, d) # calls) = identity_run (identity_addTile s t d) calls"

subsection \<open>Regions of interest and the match score\<close>

text \<open>
  \<^verbatim>\<open>_estimateROI\<close> reads \<^verbatim>\<open>self.size\<close> only, which is its first argument here:
  (Y, X), as \<^verbatim>\<open>tile.shape\<close> gives it. A region is (left, top, right, bottom).
\<close>

type_synonym roi = "int \<times> int \<times> int \<times> int"

definition estimateROI :: "nat \<times> nat \<Rightarrow> int \<times> int \<Rightarrow> error + roi \<times> roi" where
  "estimateROI sz shift =
     (let h = int (fst sz); w = int (snd sz); sx = fst shift; sy = snd shift
      in if sx \<ge> w \<or> sy \<ge> h then Inl (ValueError NoOverlap)
         else
           (let l1 = max 0 (min w sx);
                t1 = max 0 (min h sy);
                r1 = max 0 (min w (sx + w));
                b1 = max 0 (min h (sy + h));
                l2 = max 0 (min w (- sx));
                t2 = max 0 (min h (- sy));
                r2 = max 0 (min w (w - sx));
                b2 = max 0 (min h (h - sy))
            in Inr ((l1, t1, r1, b1), (l2, t2, r2, b2))))"

text \<open>
  \<^verbatim>\<open>a[t:b, l:r]\<close> for bounds that are not negative (the bounds of a region never
  are): numpy clips a slice to the array and an inverted slice is empty.
\<close>

definition crop :: "'a list list \<Rightarrow> roi \<Rightarrow> 'a list list" where
  "crop a reg =
     (case reg of (l, t, r, b) \<Rightarrow>
        map (\<lambda>row. take (nat r - nat l) (drop (nat l) row)) (take (nat b - nat t) (drop (nat t) a)))"

text \<open>A match score: a float that may be NaN. Every comparison with NaN is false.\<close>

datatype score = NaN | Score real

fun score_lt :: "score \<Rightarrow> score \<Rightarrow> bool" where
  "score_lt (Score a) (Score b) = (a < b)"
| "score_lt _ _ = False"

fun score_ge :: "score \<Rightarrow> score \<Rightarrow> bool" where
  "score_ge (Score a) (Score b) = (a \<ge> b)"
| "score_ge _ _ = False"

definition score_gt :: "score \<Rightarrow> score \<Rightarrow> bool" where
  "score_gt a b = score_lt b a"

text \<open>
  \<^verbatim>\<open>_estimateMatch\<close> reads \<^verbatim>\<open>self.size\<close>, \<^verbatim>\<open>self.tsize\<close> and
  \<^verbatim>\<open>self.osize\<close>: the first three arguments. The two images are pixel arrays of the
  shape \<^verbatim>\<open>self.size\<close> (\<^verbatim>\<open>addTile\<close> refuses any other), so the two cropped
  regions have the same shape and the product of the two arrays is taken element by
  element, here on the flattened regions. An empty region has size 0: numpy's sum is 0,
  the mean 0/0 is NaN (a warning, no exception), and so are the covariance and the
  result, the test \<^verbatim>\<open>stDev == 0\<close> being false on NaN. The sums and quotients
  are exact here: the rounding of the floats and the wrap-around of numpy's integer sum
  are not modelled.
\<close>

definition estimateMatch ::
  "nat \<times> nat \<Rightarrow> int \<Rightarrow> real \<Rightarrow> int list list \<Rightarrow> int list list \<Rightarrow> int \<times> int \<Rightarrow> error + score" where
  "estimateMatch sz ts os imageA imageB shift =
     (let min_shift = sqrt 2 * (real_of_int ts - os) - os * EXTREME_SHIFT;
          max_shift = sqrt 2 * (real_of_int ts - os) + os * EXTREME_SHIFT;
          hy = hypot (real_of_int (fst shift)) (real_of_int (snd shift))
      in if \<not> (min_shift \<le> hy \<and> hy \<le> max_shift) then Inr (Score 0)
         else
           (case estimateROI sz shift of
              Inl e \<Rightarrow> Inl e
            | Inr (reg1, reg2) \<Rightarrow>
                (let imageA_sh = concat (crop imageA reg1);
                     imageB_sh = concat (crop imageB reg2);
                     sizeA = real (length imageA_sh);
                     sizeB = real (length imageB_sh)
                 in if length imageA_sh = 0 \<or> length imageB_sh = 0 then Inr NaN
                    else
                      (let avgA = real_of_int (sum_list imageA_sh) / sizeA;
                           avgB = real_of_int (sum_list imageB_sh) / sizeB;
                           distA = map (\<lambda>p. real_of_int p - avgA) imageA_sh;
                           distB = map (\<lambda>p. real_of_int p - avgB) imageB_sh;
                           covar = sum_list (map2 (*) distA distB) / sizeA;
                           varA = sum_list (map (\<lambda>d. d ^ 2) distA) / sizeA;
                           varB = sum_list (map (\<lambda>d. d ^ 2) distB) / sizeB;
                           stDevA = sqrt varA;
                           stDevB = sqrt varB
                       in if stDevA = 0 \<or> stDevB = 0 then Inr (Score 0)
                          else Inr (Score (covar / (stDevA * stDevB)))))))"

text \<open>\<^verbatim>\<open>_get_shift\<close>: \<^verbatim>\<open>MeasureShift(b, a)\<close> on the two cropped tiles.\<close>

definition get_shift ::
  "(int list list \<Rightarrow> int list list \<Rightarrow> int \<times> int) \<Rightarrow> nat \<times> nat \<Rightarrow> tile \<Rightarrow> tile \<Rightarrow> int \<times> int
     \<Rightarrow> error + int \<times> int" where
  "get_shift ms sz prev_tile tile shift =
     (case estimateROI sz shift of
        Inl e \<Rightarrow> Inl e
      | Inr (reg1, reg2) \<Rightarrow>
          (let a = crop (pixels prev_tile) reg1;
               b = crop (pixels tile) reg2
           in Inr (ms b a)))"

subsection \<open>ShiftRegistrar: the state\<close>

text \<open>
  The fields of \<^verbatim>\<open>ShiftRegistrar\<close>. Those that \<^verbatim>\<open>__init__\<close> sets to None
  (\<^verbatim>\<open>px_size\<close>, \<^verbatim>\<open>size\<close>, \<^verbatim>\<open>posX\<close>, \<^verbatim>\<open>posY\<close>, \<^verbatim>\<open>pos_prev_x\<close>,
  \<^verbatim>\<open>osize\<close>, \<^verbatim>\<open>tsize\<close>) hold a value of their type here: \<^verbatim>\<open>addTile\<close>
  assigns each of them before it reads it (the first call assigns the first five and
  reaches no code that reads the last two; every later call assigns these), and
  \<^verbatim>\<open>getPositions\<close> fails on the empty slot (0, 0) of a new registrar before it reads
  \<^verbatim>\<open>px_size\<close>. \<^verbatim>\<open>size\<close> is \<open>size_yx\<close>. \<^verbatim>\<open>ny\<close> is never updated by the
  source.
\<close>

record registrar =
  nx :: nat
  ny :: nat
  coords_ver :: "(int \<times> int) option list list"
  coords_hor :: "(int \<times> int) option list list"
  shifts :: "(int \<times> int) option list list"
  tiles :: "tile option list list"
  last_ver :: "int \<times> int"
  last_hor :: "int \<times> int"
  ovrlp :: real
  acqOrder :: "(int \<times> int) list"
  shift_tile_dep_tiles :: "(real \<times> real) list list"
  px_size :: "real \<times> real"
  size_yx :: "nat \<times> nat"
  posX :: int
  posY :: int
  pos_prev_x :: int
  osize :: real
  tsize :: int

definition registrar_init :: registrar where
  "registrar_init =
     \<lparr>nx = 1, ny = 1, coords_ver = [[None]], coords_hor = [[None]], shifts = [[None]],
      tiles = [[None]], last_ver = (0, 0), last_hor = (0, 0), ovrlp = 0, acqOrder = [],
      shift_tile_dep_tiles = [], px_size = (0, 0), size_yx = (0, 0), posX = 0, posY = 0,
      pos_prev_x = 0, osize = 0, tsize = 0\<rparr>"

text \<open>
  A method that changes the registrar either returns, or raises; the fields assigned before
  a \<^verbatim>\<open>raise\<close> stay assigned, so both outcomes carry the registrar.
\<close>

datatype 'a outcome = Raise error registrar | Return 'a registrar

type_synonym measure_shift = "int list list \<Rightarrow> int list list \<Rightarrow> int \<times> int"

subsection \<open>ShiftRegistrar: the grid\<close>

text \<open>
  \<^verbatim>\<open>_find_closest_tile\<close>. The accumulator is None while \<^verbatim>\<open>minDist\<close> is infinite
  and \<^verbatim>\<open>pos_prev\<close> is not bound yet.
\<close>

fun closest_loop ::
  "tile option list list \<Rightarrow> real \<times> real \<Rightarrow> (nat \<times> nat) list
     \<Rightarrow> (real \<times> (nat \<times> nat) \<times> (real \<times> real)) option
     \<Rightarrow> error + (real \<times> (nat \<times> nat) \<times> (real \<times> real)) option" where
  "closest_loop g pos [] best = Inr best"
| "closest_loop g pos ((i, j) # rest) best =
     (case get2 g (int i) (int j) of
        Inl e \<Rightarrow> Inl e
      | Inr None \<Rightarrow> closest_loop g pos rest best
      | Inr (Some t) \<Rightarrow>
          (let md_pos_ij = md_pos t;
               dist = hypot (fst pos - fst md_pos_ij) (snd pos - snd md_pos_ij)
           in if (case best of None \<Rightarrow> True | Some (minDist, _, _) \<Rightarrow> dist < minDist)
              then closest_loop g pos rest (Some (dist, (i, j), md_pos_ij))
              else closest_loop g pos rest best))"

definition find_closest_tile ::
  "registrar \<Rightarrow> real \<times> real \<Rightarrow> error + (int \<times> int) \<times> (real \<times> real)" where
  "find_closest_tile s pos =
     (case closest_loop (tiles s) pos
             (List.product [0..<fst (shape (tiles s))] [0..<snd (shape (tiles s))]) None of
        Inl e \<Rightarrow> Inl e
      | Inr None \<Rightarrow> Inl UnboundLocalError
      | Inr (Some (minDist, (i, j), md_pos_prev)) \<Rightarrow> Inr ((int i, int j), md_pos_prev))"

text \<open>\<^verbatim>\<open>_updateGrid\<close>: the loop of direction "x" over the rows, then the method.\<close>

fun updateGrid_x :: "nat list \<Rightarrow> registrar \<Rightarrow> unit outcome" where
  "updateGrid_x [] s = Return () s"
| "updateGrid_x (i # rest) s =
     (let s1 = s\<lparr>tiles := (tiles s)[i := tiles s ! i @ [None]]\<rparr>
      in if length (coords_ver s1) \<le> i then Raise IndexError s1
         else
           (let s2 = s1\<lparr>coords_ver := (coords_ver s1)[i := coords_ver s1 ! i @ [None]]\<rparr>
            in if length (coords_hor s2) \<le> i then Raise IndexError s2
               else
                 (let s3 = s2\<lparr>coords_hor := (coords_hor s2)[i := coords_hor s2 ! i @ [None]]\<rparr>
                  in if length (shifts s3) \<le> i then Raise IndexError s3
                     else updateGrid_x rest
                            (s3\<lparr>shifts := (shifts s3)[i := shifts s3 ! i @ [None]]\<rparr>))))"

definition updateGrid :: "registrar \<Rightarrow> string \<Rightarrow> unit outcome" where
  "updateGrid s direction =
     (if direction = ''x'' then
        (let s1 = s\<lparr>nx := nx s + 1\<rparr> in updateGrid_x [0..<length (tiles s1)] s1)
      else
        Return ()
          (s\<lparr>tiles := tiles s @ [replicate (nx s) None],
             coords_ver := coords_ver s @ [replicate (nx s) None],
             coords_hor := coords_hor s @ [replicate (nx s) None],
             shifts := shifts s @ [replicate (nx s) None]\<rparr>))"

subsection \<open>ShiftRegistrar: the estimates of a position\<close>

text \<open>
  \<^verbatim>\<open>_mean_shift\<close>. The two comprehensions read the array in order and keep the
  entries that are not None; \<open>collect\<close> does so and stops at the first failed read.
\<close>

fun collect :: "(error + 'a option) list \<Rightarrow> error + 'a list" where
  "collect [] = Inr []"
| "collect (r # rs) =
     (case r of
        Inl e \<Rightarrow> Inl e
      | Inr v \<Rightarrow>
          (case collect rs of
             Inl e \<Rightarrow> Inl e
           | Inr vs \<Rightarrow> Inr (case v of None \<Rightarrow> vs | Some x \<Rightarrow> x # vs)))"

definition mean_shift ::
  "int \<Rightarrow> int \<Rightarrow> (int \<times> int) option list list \<Rightarrow> error + int \<times> int" where
  "mean_shift row col coords_array =
     (case collect (map (\<lambda>i. get2 coords_array row i) [1..col - 1]
                    @ map (\<lambda>i. get2 coords_array i col) [1..row - 1]) of
        Inl e \<Rightarrow> Inl e
      | Inr val \<Rightarrow>
          (if val = [] then Inl (ValueError NotEnoughData)
           else Inr (py_int (real_of_int (sum_list (map fst val)) / real (length val)),
                     py_int (real_of_int (sum_list (map snd val)) / real (length val)))))"

text \<open>
  The block that \<^verbatim>\<open>_pos_to_left_right\<close> and \<^verbatim>\<open>_pos_to_top\<close> share word for
  word (\<^verbatim>\<open>if match < BEST_MATCH and (row > 1 or col > 1): ...\<close>), with the array of
  accepted shifts and the last shift measured of the axis as arguments. It takes the
  shift \<open>(x, y)\<close> and its match and returns the shift and match kept. Only the
  \<^verbatim>\<open>ValueError\<close> of \<^verbatim>\<open>_mean_shift\<close> is caught.
\<close>

definition fallback_shift ::
  "measure_shift \<Rightarrow> registrar \<Rightarrow> tile \<Rightarrow> tile \<Rightarrow> int \<times> int \<Rightarrow> int \<Rightarrow> int
     \<Rightarrow> (int \<times> int) option list list \<Rightarrow> int \<times> int \<Rightarrow> (int \<times> int) \<times> score
     \<Rightarrow> error + (int \<times> int) \<times> score" where
  "fallback_shift ms s prev_tile tile exp_shift row col coords_array last_shift xy_match =
     (case xy_match of (xy, match) \<Rightarrow>
        if score_lt match (Score BEST_MATCH) \<and> (row > 1 \<or> col > 1) then
          (case (case mean_shift row col coords_array of
                   Inl (ValueError _) \<Rightarrow> Inr last_shift
                 | r \<Rightarrow> r) of
             Inl e \<Rightarrow> Inl e
           | Inr (mean_x, mean_y) \<Rightarrow>
               (case estimateMatch (size_yx s) (tsize s) (osize s) (pixels prev_tile) (pixels tile)
                       (fst exp_shift - mean_x, snd exp_shift - mean_y) of
                  Inl e \<Rightarrow> Inl e
                | Inr match_c \<Rightarrow>
                    (let kept = (if score_gt match_c match then ((mean_x, mean_y), match_c)
                                 else (xy, match))
                     in if (mean_x, mean_y) \<noteq> (0, 0) then
                          (case get_shift ms (size_yx s) prev_tile tile
                                  (fst exp_shift - mean_x, snd exp_shift - mean_y) of
                             Inl e \<Rightarrow> Inl e
                           | Inr drift \<Rightarrow>
                               (let mean_x2 = mean_x + fst drift;
                                    mean_y2 = mean_y + snd drift
                                in case estimateMatch (size_yx s) (tsize s) (osize s)
                                          (pixels prev_tile) (pixels tile)
                                          (fst exp_shift - mean_x2, snd exp_shift - mean_y2) of
                                     Inl e \<Rightarrow> Inl e
                                   | Inr match_c2 \<Rightarrow>
                                       (if score_gt match_c2 (snd kept)
                                        then Inr ((mean_x2, mean_y2), match_c2)
                                        else Inr kept)))
                        else Inr kept)))
        else Inr (xy, match))"

text \<open>
  \<^verbatim>\<open>_pos_to_left_right\<close>. \<^verbatim>\<open>_compute_registration\<close> calls it only after it has
  stored the tile at (row, col) and found the neighbour's slot filled, so the tiles read
  here are not None; were one None, Python would fail when slicing it, and the model fails
  at the read. The neighbour's position may be None (its \<^verbatim>\<open>addTile\<close> raised after
  the tile was stored): Python fails at \<^verbatim>\<open>prev_pos[0]\<close>, after the shift has been
  recorded.
\<close>

definition pos_to_left_right ::
  "measure_shift \<Rightarrow> registrar \<Rightarrow> int \<Rightarrow> int \<Rightarrow> int \<Rightarrow> ((int \<times> int) option \<times> score) outcome" where
  "pos_to_left_right ms s row col xdir =
     (case get2 (tiles s) row col of
        Inl e \<Rightarrow> Raise e s
      | Inr None \<Rightarrow> Raise TypeError s
      | Inr (Some tile) \<Rightarrow>
          (let exp_shift = (tsize s, 0)
           in if (xdir = LEFT \<and> col > 0) \<or> (xdir = RIGHT \<and> col < int (nx s)) then
                (let ncol = (if xdir = LEFT then col - 1 else col + 1)
                 in case get2 (shifts s) row ncol of
                      Inl e \<Rightarrow> Raise e s
                    | Inr prev_pos \<Rightarrow>
                   (case get2 (tiles s) row ncol of
                      Inl e \<Rightarrow> Raise e s
                    | Inr None \<Rightarrow> Raise TypeError s
                    | Inr (Some prev_tile) \<Rightarrow>
                   (case (if xdir = LEFT then get_shift ms (size_yx s) prev_tile tile exp_shift
                          else (case get_shift ms (size_yx s) tile prev_tile exp_shift of
                                  Inl e \<Rightarrow> Inl e
                                | Inr (x, y) \<Rightarrow> Inr (- x, - y))) of
                      Inl e \<Rightarrow> Raise e s
                    | Inr (x, y) \<Rightarrow>
                   (case estimateMatch (size_yx s) (tsize s) (osize s) (pixels prev_tile)
                           (pixels tile) (fst exp_shift - x, snd exp_shift - y) of
                      Inl e \<Rightarrow> Raise e s
                    | Inr match \<Rightarrow>
                   (case fallback_shift ms s prev_tile tile exp_shift row col (coords_hor s)
                           (last_hor s) ((x, y), match) of
                      Inl e \<Rightarrow> Raise e s
                    | Inr ((x, y), match) \<Rightarrow>
                   (let s1 = s\<lparr>last_hor := (x, y)\<rparr>
                    in case (if score_ge match (Score BEST_MATCH) then
                               (case set2 (coords_hor s1) row col (Some (x, y)) of
                                  Inl e \<Rightarrow> Raise e s1
                                | Inr c \<Rightarrow> Return () (s1\<lparr>coords_hor := c\<rparr>))
                             else Return () s1) of
                         Raise e s' \<Rightarrow> Raise e s'
                       | Return _ s2 \<Rightarrow>
                      (case prev_pos of
                         None \<Rightarrow> Raise TypeError s2
                       | Some pp \<Rightarrow>
                           (let spacing = real (snd (size_yx s2)) * (1 - ovrlp s2);
                                pos = (if xdir = LEFT
                                       then (py_int (real_of_int (fst pp) + spacing - real_of_int x),
                                             snd pp - y)
                                       else (py_int (real_of_int (fst pp) - spacing - real_of_int x),
                                             snd pp - y))
                            in Return (Some pos, match) s2))))))))
              else Return (None, Score 0) s))"

text \<open>\<^verbatim>\<open>_pos_to_top\<close>, with the same remarks.\<close>

definition pos_to_top ::
  "measure_shift \<Rightarrow> registrar \<Rightarrow> int \<Rightarrow> int \<Rightarrow> ((int \<times> int) option \<times> score) outcome" where
  "pos_to_top ms s row col =
     (case get2 (tiles s) row col of
        Inl e \<Rightarrow> Raise e s
      | Inr None \<Rightarrow> Raise TypeError s
      | Inr (Some tile) \<Rightarrow>
          (let exp_shift = (0, tsize s)
           in if row > 0 then
                (case get2 (shifts s) (row - 1) col of
                      Inl e \<Rightarrow> Raise e s
                    | Inr prev_pos \<Rightarrow>
                   (case get2 (tiles s) (row - 1) col of
                      Inl e \<Rightarrow> Raise e s
                    | Inr None \<Rightarrow> Raise TypeError s
                    | Inr (Some prev_tile) \<Rightarrow>
                   (case get_shift ms (size_yx s) prev_tile tile exp_shift of
                      Inl e \<Rightarrow> Raise e s
                    | Inr (x, y) \<Rightarrow>
                   (case estimateMatch (size_yx s) (tsize s) (osize s) (pixels prev_tile)
                           (pixels tile) (fst exp_shift - x, snd exp_shift - y) of
                      Inl e \<Rightarrow> Raise e s
                    | Inr match \<Rightarrow>
                   (case fallback_shift ms s prev_tile tile exp_shift row col (coords_ver s)
                           (last_ver s) ((x, y), match) of
                      Inl e \<Rightarrow> Raise e s
                    | Inr ((x, y), match) \<Rightarrow>
                   (let s1 = s\<lparr>last_ver := (x, y)\<rparr>
                    in case (if score_ge match (Score BEST_MATCH) then
                               (case set2 (coords_ver s1) row col (Some (x, y)) of
                                  Inl e \<Rightarrow> Raise e s1
                                | Inr c \<Rightarrow> Return () (s1\<lparr>coords_ver := c\<rparr>))
                             else Return () s1) of
                         Raise e s' \<Rightarrow> Raise e s'
                       | Return _ s2 \<Rightarrow>
                      (case prev_pos of
                         None \<Rightarrow> Raise TypeError s2
                       | Some pp \<Rightarrow>
                           (let spacing = real (fst (size_yx s2)) * (1 - ovrlp s2);
                                pos = (fst pp - x,
                                       py_int (real_of_int (snd pp) + spacing - real_of_int y))
                            in Return (Some pos, match) s2))))))))
              else Return (None, Score 0) s))"

subsection \<open>ShiftRegistrar: \<^verbatim>\<open>_compute_registration\<close>\<close>

text \<open>
  The test of the first line, with the short circuits of \<^verbatim>\<open>and\<close>: True when the
  error is to be raised.
\<close>

definition ordering_guard :: "tile option list list \<Rightarrow> int \<Rightarrow> int \<Rightarrow> error + bool" where
  "ordering_guard g row col =
     (if row \<ge> 1 then
        (case get2 g (row - 1) col of
           Inl e \<Rightarrow> Inl e
         | Inr (Some _) \<Rightarrow> Inr False
         | Inr None \<Rightarrow>
             (if col \<ge> 1 then
                (case get2 g row (col - 1) of
                   Inl e \<Rightarrow> Inl e
                 | Inr (Some _) \<Rightarrow> Inr False
                 | Inr None \<Rightarrow> Inr True)
              else Inr False))
      else Inr False)"

text \<open>
  The estimate from the neighbour on the left or on the right
  (\<^verbatim>\<open>if self.pos_prev_x < col: ... elif self.pos_prev_x > col: ...\<close>), and the estimate
  from the neighbour above (\<^verbatim>\<open>if row != 0 and ...\<close>). Without a neighbour the
  initial values None and 0 stay.
\<close>

definition horizontal_estimate ::
  "measure_shift \<Rightarrow> registrar \<Rightarrow> int \<Rightarrow> int \<Rightarrow> ((int \<times> int) option \<times> score) outcome" where
  "horizontal_estimate ms s row col =
     (if pos_prev_x s < col then
        (if col \<noteq> 0 then
           (case get2 (tiles s) row (col - 1) of
              Inl e \<Rightarrow> Raise e s
            | Inr None \<Rightarrow> Return (None, Score 0) s
            | Inr (Some _) \<Rightarrow> pos_to_left_right ms s row col LEFT)
         else Return (None, Score 0) s)
      else if pos_prev_x s > col then
        (if col \<noteq> int (nx s) then
           (case get2 (tiles s) row (col + 1) of
              Inl e \<Rightarrow> Raise e s
            | Inr None \<Rightarrow> Return (None, Score 0) s
            | Inr (Some _) \<Rightarrow> pos_to_left_right ms s row col RIGHT)
         else Return (None, Score 0) s)
      else Return (None, Score 0) s)"

definition vertical_estimate ::
  "measure_shift \<Rightarrow> registrar \<Rightarrow> int \<Rightarrow> int \<Rightarrow> ((int \<times> int) option \<times> score) outcome" where
  "vertical_estimate ms s row col =
     (if row \<noteq> 0 then
        (case get2 (tiles s) (row - 1) col of
           Inl e \<Rightarrow> Raise e s
         | Inr None \<Rightarrow> Return (None, Score 0) s
         | Inr (Some _) \<Rightarrow> pos_to_top ms s row col)
      else Return (None, Score 0) s)"

text \<open>
  The reconciliation (\<^verbatim>\<open># get rid of extreme values\<close>): the position stored, from
  the two estimates, their matches and the expected position \<open>(ox, oy)\<close>.
\<close>

definition reconcile ::
  "(int \<times> int) option \<Rightarrow> score \<Rightarrow> (int \<times> int) option \<Rightarrow> score \<Rightarrow> int \<times> int \<Rightarrow> int \<times> int" where
  "reconcile pos match pos2 match2 oxy =
     (case (pos, pos2) of
        (None, None) \<Rightarrow> oxy
      | (None, Some p2) \<Rightarrow> p2
      | (Some p, None) \<Rightarrow> p
      | (Some p, Some p2) \<Rightarrow>
          (if score_gt match (Score GOOD_MATCH) \<and> score_gt match2 (Score GOOD_MATCH) then
             (py_int (real_of_int (fst p + fst p2) / 2), py_int (real_of_int (snd p + snd p2) / 2))
           else if score_gt match2 match then p2
           else if match2 = Score 0 \<and> match = Score 0 then oxy
           else p))"

definition compute_registration ::
  "measure_shift \<Rightarrow> registrar \<Rightarrow> tile \<Rightarrow> int \<Rightarrow> int \<Rightarrow> unit outcome" where
  "compute_registration ms s tile row col =
     (case ordering_guard (tiles s) row col of
        Inl e \<Rightarrow> Raise e s
      | Inr True \<Rightarrow> Raise (ValueError OrderingError) s
      | Inr False \<Rightarrow>
          (case set2 (tiles s) row col (Some tile) of
             Inl e \<Rightarrow> Raise e s
           | Inr g \<Rightarrow>
               (let s1 = s\<lparr>tiles := g\<rparr>;
                    ox = py_int (real_of_int col * (real (snd (size_yx s1)) * (1 - ovrlp s1)));
                    oy = py_int (real_of_int row * (real (fst (size_yx s1)) * (1 - ovrlp s1)))
                in case horizontal_estimate ms s1 row col of
                     Raise e s' \<Rightarrow> Raise e s'
                   | Return (pos, match) s2 \<Rightarrow>
                       (case vertical_estimate ms s2 row col of
                          Raise e s' \<Rightarrow> Raise e s'
                        | Return (pos2, match2) s3 \<Rightarrow>
                            (case set2 (shifts s3) row col
                                    (Some (reconcile pos match pos2 match2 (ox, oy))) of
                               Inl e \<Rightarrow> Raise e s3
                             | Inr sh \<Rightarrow>
                                 Return ()
                                   (s3\<lparr>shifts := sh,
                                       acqOrder := acqOrder s3 @ [(row, col)]\<rparr>))))))"

subsection \<open>ShiftRegistrar: \<^verbatim>\<open>addTile\<close> and \<^verbatim>\<open>getPositions\<close>\<close>

text \<open>
  The slot of the new tile from the slot \<open>pos_prev\<close> of the closest tile and the two
  differences of position, with the growth of the grid
  (\<^verbatim>\<open>if abs(ver_diff) > abs(hor_diff): ... else: ...\<close>).
\<close>

definition insert_slot :: "registrar \<Rightarrow> int \<times> int \<Rightarrow> real \<Rightarrow> real \<Rightarrow> unit outcome" where
  "insert_slot s pos_prev ver_diff hor_diff =
     (if \<bar>ver_diff\<bar> > \<bar>hor_diff\<bar> then
        (if ver_diff < 0 then
           (let s1 = s\<lparr>posY := fst pos_prev + 1, posX := snd pos_prev\<rparr>
            in if int (length (shifts s1)) \<le> posY s1 then updateGrid s1 ''y'' else Return () s1)
         else Return () (s\<lparr>posY := fst pos_prev - 1, posX := snd pos_prev\<rparr>))
      else
        (if hor_diff > 0 then
           (let s1 = s\<lparr>posY := fst pos_prev, posX := snd pos_prev + 1\<rparr>
            in case py_get (shifts s1) 0 of
                 Inl e \<Rightarrow> Raise e s1
               | Inr row0 \<Rightarrow>
                   (if int (length row0) \<le> posX s1 then updateGrid s1 ''x'' else Return () s1))
         else Return () (s\<lparr>posY := fst pos_prev, posX := snd pos_prev - 1\<rparr>)))"

text \<open>
  The overlap (\<^verbatim>\<open># Calculate overlap\<close>). The division of Python floats raises
  \<^verbatim>\<open>ZeroDivisionError\<close> when the extent in metres is 0. The quotient and the
  product are exact here; where the floats of the source round, \<^verbatim>\<open>osize\<close> can
  differ in the last place and \<^verbatim>\<open>tsize\<close>, truncated from it, by one.
\<close>

definition compute_overlap ::
  "registrar \<Rightarrow> tile \<Rightarrow> real \<times> real \<Rightarrow> real \<Rightarrow> real \<Rightarrow> unit outcome" where
  "compute_overlap s tile md_pos_prev ver_diff hor_diff =
     (if \<bar>ver_diff\<bar> > \<bar>hor_diff\<bar> then
        (let size_meter = real (fst (size_yx s)) * snd (px_size s);
             diff = \<bar>snd (md_pos tile) - snd md_pos_prev\<bar>
         in if size_meter = 0 then Raise ZeroDivisionError s
            else
              (let s1 = s\<lparr>ovrlp := \<bar>size_meter - diff\<bar> / size_meter\<rparr>;
                   s2 = s1\<lparr>osize := real (fst (size_yx s1)) * ovrlp s1\<rparr>
               in Return () (s2\<lparr>tsize := py_int (real (fst (size_yx s2)) - osize s2)\<rparr>)))
      else
        (let size_meter = real (snd (size_yx s)) * fst (px_size s);
             diff = \<bar>fst (md_pos tile) - fst md_pos_prev\<bar>
         in if size_meter = 0 then Raise ZeroDivisionError s
            else
              (let s1 = s\<lparr>ovrlp := \<bar>size_meter - diff\<bar> / size_meter\<rparr>;
                   s2 = s1\<lparr>osize := real (snd (size_yx s1)) * ovrlp s1\<rparr>
               in Return () (s2\<lparr>tsize := py_int (real (snd (size_yx s2)) - osize s2)\<rparr>))))"

text \<open>
  The position of the tile in the grid
  (\<^verbatim>\<open>if self.tiles[0][0] is None: ... else: ...\<close>).
\<close>

definition locate :: "registrar \<Rightarrow> tile \<Rightarrow> unit outcome" where
  "locate s tile =
     (case get2 (tiles s) 0 0 of
        Inl e \<Rightarrow> Raise e s
      | Inr None \<Rightarrow>
          Return ()
            (s\<lparr>size_yx := shape (pixels tile), px_size := md_pixel_size tile,
               posX := 0, posY := 0, pos_prev_x := 0\<rparr>)
      | Inr (Some tile00) \<Rightarrow>
          (if shape (pixels tile) \<noteq> shape (pixels tile00) then Raise (ValueError ShapeMismatch) s
           else
             (case find_closest_tile s (md_pos tile) of
                Inl e \<Rightarrow> Raise e s
              | Inr (pos_prev, md_pos_prev) \<Rightarrow>
                  (let ver_diff = snd (md_pos tile) - snd md_pos_prev;
                       hor_diff = fst (md_pos tile) - fst md_pos_prev
                   in case insert_slot s pos_prev ver_diff hor_diff of
                        Raise e s' \<Rightarrow> Raise e s'
                      | Return _ s1 \<Rightarrow>
                          compute_overlap (s1\<lparr>pos_prev_x := snd pos_prev\<rparr>) tile md_pos_prev
                            ver_diff hor_diff))))"

text \<open>
  \<^verbatim>\<open>for dt in dependent_tiles: ... self.shift_tile_dep_tiles[-1].append(sdt)\<close>.
\<close>

fun store_dep_shifts :: "registrar \<Rightarrow> tile \<Rightarrow> tile list \<Rightarrow> unit outcome" where
  "store_dep_shifts s tile [] = Return () s"
| "store_dep_shifts s tile (dt # rest) =
     (let sdt = (fst (md_pos dt) - fst (md_pos tile), snd (md_pos dt) - snd (md_pos tile))
      in if shift_tile_dep_tiles s = [] then Raise IndexError s
         else store_dep_shifts
                (s\<lparr>shift_tile_dep_tiles :=
                     butlast (shift_tile_dep_tiles s) @ [last (shift_tile_dep_tiles s) @ [sdt]]\<rparr>)
                tile rest)"

definition addTile ::
  "measure_shift \<Rightarrow> registrar \<Rightarrow> tile \<Rightarrow> tile list option \<Rightarrow> unit outcome" where
  "addTile ms s tile dependent_tiles =
     (let deps = (case dependent_tiles of None \<Rightarrow> [] | Some ds \<Rightarrow> ds);
          s0 = (case dependent_tiles of
                  None \<Rightarrow> s
                | Some _ \<Rightarrow> s\<lparr>shift_tile_dep_tiles := shift_tile_dep_tiles s @ [[]]\<rparr>)
      in case locate s0 tile of
           Raise e s' \<Rightarrow> Raise e s'
         | Return _ s1 \<Rightarrow>
             (case store_dep_shifts s1 tile deps of
                Raise e s' \<Rightarrow> Raise e s'
              | Return _ s2 \<Rightarrow> compute_registration ms s2 tile (posY s2) (posX s2)))"

text \<open>
  \<^verbatim>\<open>getPositions\<close>. The first loop, over \<^verbatim>\<open>acqOrder\<close>, then the method; the second
  loop is over \<^verbatim>\<open>zip(tile_positions, self.shift_tile_dep_tiles)\<close>, which stops at the
  end of the shorter list. (numpy divides by a pixel size of 0 without an exception; the
  quotient is written as it is.)
\<close>

fun tile_positions_loop ::
  "registrar \<Rightarrow> real \<times> real \<Rightarrow> (int \<times> int) list \<Rightarrow> error + (real \<times> real) list" where
  "tile_positions_loop s firstPosition [] = Inr []"
| "tile_positions_loop s firstPosition (ti # rest) =
     (case get2 (shifts s) (fst ti) (snd ti) of
        Inl e \<Rightarrow> Inl e
      | Inr None \<Rightarrow> Inl TypeError
      | Inr (Some shift) \<Rightarrow>
          (case tile_positions_loop s firstPosition rest of
             Inl e \<Rightarrow> Inl e
           | Inr ps \<Rightarrow>
               Inr (((real_of_int (fst shift) + fst firstPosition) * fst (px_size s),
                     (snd firstPosition - real_of_int (snd shift)) * snd (px_size s)) # ps)))"

definition dep_positions :: "real \<times> real \<Rightarrow> (real \<times> real) list \<Rightarrow> (real \<times> real) list" where
  "dep_positions t sdts = map (\<lambda>sdt. (fst t + fst sdt, snd t + snd sdt)) sdts"

definition getPositions ::
  "registrar \<Rightarrow> error + (real \<times> real) list \<times> (real \<times> real) list list" where
  "getPositions s =
     (case get2 (tiles s) 0 0 of
        Inl e \<Rightarrow> Inl e
      | Inr None \<Rightarrow> Inl AttributeError
      | Inr (Some tile00) \<Rightarrow>
          (let firstPosition = (fst (md_pos tile00) / fst (px_size s),
                                snd (md_pos tile00) / snd (px_size s))
           in case tile_positions_loop s firstPosition (acqOrder s) of
                Inl e \<Rightarrow> Inl e
              | Inr tile_positions \<Rightarrow>
                  Inr (tile_positions,
                       map (\<lambda>(t, sdts). dep_positions t sdts)
                         (zip tile_positions (shift_tile_dep_tiles s)))))"

text \<open>
  A session: the calls of \<^verbatim>\<open>addTile\<close> in order on a registrar; an error that a call
  raises ends the session (it propagates to the caller).
\<close>

fun run ::
  "measure_shift \<Rightarrow> registrar \<Rightarrow> (tile \<times> tile list option) list \<Rightarrow> unit outcome" where
  "run ms s [] = Return () s"
| "run ms s ((t, d) # calls) =
     (case addTile ms s t d of
        Raise e s' \<Rightarrow> Raise e s'
      | Return _ s' \<Rightarrow> run ms s' calls)"

subsection \<open>Notions used in the statements and proofs\<close>

text \<open>
  A grid grows when every slot that can be read at indices that are not negative keeps its
  content: what appending a row or a column does.
\<close>

definition grid_grows :: "'a list list \<Rightarrow> 'a list list \<Rightarrow> bool" where
  "grid_grows g g' = (\<forall>r c v. 0 \<le> r \<longrightarrow> 0 \<le> c \<longrightarrow> get2 g r c = Inr v \<longrightarrow> get2 g' r c = Inr v)"

text \<open>
  Example tiles: 2 by 2 pixels, of pixel size (1, 1), at a given position. The registrar
  after \<^verbatim>\<open>addTile(t)\<close> on a new registrar.
\<close>

definition ex_tile :: "real \<times> real \<Rightarrow> tile" where
  "ex_tile p = \<lparr>pixels = [[1, 2], [3, 4]], md_pos = p, md_pixel_size = (1, 1)\<rparr>"

definition first_state :: "tile \<Rightarrow> registrar" where
  "first_state t =
     \<lparr>nx = 1, ny = 1, coords_ver = [[None]], coords_hor = [[None]], shifts = [[Some (0, 0)]],
      tiles = [[Some t]], last_ver = (0, 0), last_hor = (0, 0), ovrlp = 0, acqOrder = [(0, 0)],
      shift_tile_dep_tiles = [], px_size = md_pixel_size t, size_yx = shape (pixels t),
      posX = 0, posY = 0, pos_prev_x = 0, osize = 0, tsize = 0\<rparr>"

text \<open>A \<^verbatim>\<open>MeasureShift\<close> that measures no shift, for the examples.\<close>

definition no_drift :: measure_shift where
  "no_drift b a = (0, 0)"

text \<open>
  The registrar after a sequence of calls of \<^verbatim>\<open>addTile\<close> whose caller goes on after
  an error: each call leaves the registrar of its outcome.
\<close>

fun outcome_state :: "'a outcome \<Rightarrow> registrar" where
  "outcome_state (Raise e s) = s"
| "outcome_state (Return v s) = s"

fun session_state ::
  "measure_shift \<Rightarrow> registrar \<Rightarrow> (tile \<times> tile list option) list \<Rightarrow> registrar" where
  "session_state ms s [] = s"
| "session_state ms s ((t, d) # calls) = session_state ms (outcome_state (addTile ms s t d)) calls"

text \<open>
  Five tiles, added in an order the registrar supports: down the first column to row 2,
  then to the right along row 2.
\<close>

definition ordering_session :: "(tile \<times> tile list option) list" where
  "ordering_session =
     [(ex_tile (0, 0), None), (ex_tile (0, - 1), None), (ex_tile (0, - 2), None),
      (ex_tile (1, - 2), None), (ex_tile (2, - 2), None)]"

text \<open>
  The shape of the session is established: \<^verbatim>\<open>self.size\<close> holds it and the tile of
  slot (0, 0), against which every new tile is compared, has it.
\<close>

definition established :: "nat \<times> nat \<Rightarrow> registrar \<Rightarrow> bool" where
  "established sh s =
     (size_yx s = sh \<and> (\<exists>t. get2 (tiles s) 0 0 = Inr (Some t) \<and> shape (pixels t) = sh))"

text \<open>
  The reconciliation in the words of the specification. The ideal position of a slot is
  (col * idealSpacingX, row * idealSpacingY), truncated, where the ideal spacing is the
  extent of a tile times (1 - overlap). Without any estimate, the ideal position; with
  one estimate, that estimate; with two estimates whose matches both exceed GOOD\_MATCH,
  the truncated average of the two; with two estimates of match exactly 0, the ideal
  position; otherwise the estimate of the higher match.
\<close>

definition ideal_position :: "registrar \<Rightarrow> int \<Rightarrow> int \<Rightarrow> int \<times> int" where
  "ideal_position s row col =
     (py_int (real_of_int col * (real (snd (size_yx s)) * (1 - ovrlp s))),
      py_int (real_of_int row * (real (fst (size_yx s)) * (1 - ovrlp s))))"

definition spec_reconcile ::
  "(int \<times> int) option \<Rightarrow> score \<Rightarrow> (int \<times> int) option \<Rightarrow> score \<Rightarrow> int \<times> int \<Rightarrow> int \<times> int" where
  "spec_reconcile hor m_hor ver m_ver ideal =
     (case (hor, ver) of
        (None, None) \<Rightarrow> ideal
      | (Some p, None) \<Rightarrow> p
      | (None, Some q) \<Rightarrow> q
      | (Some p, Some q) \<Rightarrow>
          (if score_gt m_hor (Score GOOD_MATCH) \<and> score_gt m_ver (Score GOOD_MATCH)
           then (py_int (real_of_int (fst p + fst q) / 2), py_int (real_of_int (snd p + snd q) / 2))
           else if m_hor = Score 0 \<and> m_ver = Score 0 then ideal
           else if score_gt m_ver m_hor then q
           else p))"

text \<open>
  Examples. Three tiles that fill the slots (0, 0), (0, 1) and (1, 0), and the registrar
  once a fourth tile, at (1, -1), has been located at slot (1, 1). Three tiles that fill
  the slots (0, 0), (1, 0) and (1, 1), and the registrar once a fourth tile, at (1, -1/2),
  above the tile of slot (1, 1), has been located at slot (0, 1), and once it has been
  stored there. A tile of another shape, 1 by 2 pixels.
\<close>

definition both_session :: "(tile \<times> tile list option) list" where
  "both_session = [(ex_tile (0, 0), None), (ex_tile (1, 1 / 2), None), (ex_tile (0, - 1), None)]"

definition above_session :: "(tile \<times> tile list option) list" where
  "above_session = [(ex_tile (0, 0), None), (ex_tile (0, - 1), None), (ex_tile (1, - 1), None)]"

definition both_located :: registrar where
  "both_located =
     (session_state no_drift registrar_init both_session)
       \<lparr>posY := 1, posX := 1, pos_prev_x := 0, ovrlp := 1 / 2, osize := 1, tsize := 1\<rparr>"

definition above_located :: registrar where
  "above_located =
     (session_state no_drift registrar_init above_session)
       \<lparr>posY := 0, posX := 1, pos_prev_x := 1, ovrlp := 3 / 4, osize := 3 / 2, tsize := 0\<rparr>"

definition above_stored :: registrar where
  "above_stored =
     above_located
       \<lparr>tiles := [[Some (ex_tile (0, 0)), Some (ex_tile (1, - 1 / 2))],
                  [Some (ex_tile (0, - 1)), Some (ex_tile (1, - 1))]]\<rparr>"

definition small_tile :: tile where
  "small_tile = \<lparr>pixels = [[1, 2]], md_pos = (2, 0), md_pixel_size = (1, 1)\<rparr>"

text \<open>The offsets of the dependent tiles of a tile, as \<^verbatim>\<open>addTile\<close> computes them.\<close>

definition offsets :: "tile \<Rightarrow> tile list \<Rightarrow> (real \<times> real) list" where
  "offsets tile ds =
     map (\<lambda>dt. (fst (md_pos dt) - fst (md_pos tile), snd (md_pos dt) - snd (md_pos tile))) ds"

subsection \<open>Properties of IdentityRegistrar\<close>

lemma identity_run_tile_pos:
  "tile_pos (identity_run s calls) = tile_pos s @ map (\<lambda>c. md_pos (fst c)) calls"
proof (induction calls arbitrary: s)
  case Nil
  show ?case by simp
next
  case (Cons c calls)
  obtain t d where c: "c = (t, d)" by (cases c)
  have "tile_pos (identity_addTile s t d) = tile_pos s @ [md_pos t]"
    by (simp add: identity_addTile_def Let_def split: option.split)
  with Cons.IH [of "identity_addTile s t d"] c show ?case by simp
qed

text \<open>
  C9. For IdentityRegistrar and every sequence of calls of addTile (whatever the
  dependent tiles), the first list of getPositions is the list of the declared positions
  (the MD\_POS metadata) of the tiles added, unmodified and in insertion order.
\<close>

theorem identity_roundtrip:
  "fst (identity_getPositions (identity_run identity_init calls)) = map (\<lambda>c. md_pos (fst c)) calls"
  by (simp add: identity_getPositions_def identity_run_tile_pos identity_init_def)

subsection \<open>Properties of the regions of interest\<close>

lemma estimateROI_raises_iff:
  "(estimateROI sz shift = Inl (ValueError NoOverlap)) =
     (int (snd sz) \<le> fst shift \<or> int (fst sz) \<le> snd shift)"
  by (simp add: estimateROI_def Let_def)

lemma estimateROI_overlap:
  assumes "\<bar>fst shift\<bar> < int (snd sz)" and "\<bar>snd shift\<bar> < int (fst sz)"
  shows "estimateROI sz shift =
           Inr ((max 0 (fst shift), max 0 (snd shift),
                 min (int (snd sz)) (fst shift + int (snd sz)),
                 min (int (fst sz)) (snd shift + int (fst sz))),
                (max 0 (- fst shift), max 0 (- snd shift),
                 min (int (snd sz)) (int (snd sz) - fst shift),
                 min (int (fst sz)) (int (fst sz) - snd shift)))"
  using assms by (auto simp: estimateROI_def Let_def max_def min_def)

text \<open>
  C3. \<^verbatim>\<open>_estimateROI\<close> is claimed to fail with NoOverlap whenever the magnitude of
  the shift on an axis reaches the extent of the tile on that axis, large negative
  shifts included. The source tests \<^verbatim>\<open>shift[0] >= self.size[1]\<close> and
  \<^verbatim>\<open>shift[1] >= self.size[0]\<close> only: for a tile of 10 by 10 pixels and the shift
  (-10, 0), under which no pixel overlaps, no error is raised and two regions of width 0
  are returned.
\<close>

theorem estimateROI_negative_shift_accepted:
  "estimateROI (10, 10) (- 10, 0) = Inr ((0, 0, 0, 10), (10, 0, 10, 10))"
  by (simp add: estimateROI_def)

subsection \<open>Properties of the match score\<close>

lemma sqrt2_bounds: "7 / 5 < sqrt 2" "sqrt 2 < 29 / 20"
  by (rule real_less_rsqrt, simp add: power2_eq_square)
     (rule real_less_lsqrt, simp_all add: power2_eq_square)

lemma hypot_11: "hypot 11 0 = 11"
  by (simp add: hypot_def)

text \<open>
  C2. \<^verbatim>\<open>_estimateMatch\<close> is claimed to return 0 outside the plausible range and
  inside it 0 or covariance/(stdDevA*stdDevB): a score in every case, as its docstring
  says (\<^verbatim>\<open>return (0 <= float<=1)\<close>). Inside the range it calls
  \<^verbatim>\<open>_estimateROI\<close>, whose error nothing catches. Tiles of 10 by 10 pixels with an
  overlap of 10 percent (overlap size 1, ideal shift 9, plausible range about
  [10.71, 11.91]) and the shift (11, 0), two pixels off the ideal one: the hypotenuse 11 is
  plausible, the shift reaches the width of the tile, and the call raises instead of
  returning a score, whatever the two images are.
\<close>

theorem estimateMatch_no_overlap_raised:
  "estimateMatch (10, 10) 9 1 a b (11, 0) = Inl (ValueError NoOverlap)"
proof -
  have "sqrt 2 * 8 - 6 / 10 \<le> 11" "(11::real) \<le> sqrt 2 * 8 + 6 / 10"
    using sqrt2_bounds by simp_all
  then show ?thesis
    by (simp add: estimateMatch_def estimateROI_def hypot_11 EXTREME_SHIFT_def Let_def)
qed

text \<open>The same on tiles of 1 by 4 pixels, overlap size 2, ideal shift 2 and the shift (0, 1).\<close>

lemma estimateMatch_raises_1x4:
  "estimateMatch (1, 4) 2 2 [[1, 2, 3, 4]] [[1, 2, 3, 4]] (0, 1) = Inl (ValueError NoOverlap)"
  by (simp add: estimateMatch_def estimateROI_def hypot_def EXTREME_SHIFT_def Let_def)

text \<open>
  C4. The score is claimed to lie in [0, 1], as the docstring of \<^verbatim>\<open>_estimateMatch\<close>
  says. The value returned is a correlation coefficient, which is negative for regions
  that vary in opposite directions: tiles of 1 by 2 pixels, overlap size 1, ideal shift 1,
  the images [[0, 1]] and [[1, 0]] and the shift (0, 0) give -1.
\<close>

theorem estimateMatch_negative:
  "estimateMatch (1, 2) 1 1 [[0, 1]] [[1, 0]] (0, 0) = Inr (Score (- 1))"
  by (simp add: estimateMatch_def estimateROI_def crop_def hypot_def EXTREME_SHIFT_def Let_def
      real_sqrt_divide)


subsection \<open>Errors and frames of the methods of ShiftRegistrar\<close>

lemma py_get_error: "py_get xs i = Inl e \<Longrightarrow> e = IndexError"
  by (auto simp: py_get_def split: option.splits)

lemma py_set_error: "py_set xs i v = Inl e \<Longrightarrow> e = IndexError"
  by (auto simp: py_set_def split: option.splits)

lemma get2_error: "get2 g r c = Inl e \<Longrightarrow> e = IndexError"
  by (auto simp: get2_def split: sum.splits dest: py_get_error)

lemma set2_error: "set2 g r c v = Inl e \<Longrightarrow> e = IndexError"
  by (auto simp: set2_def split: sum.splits dest: py_get_error py_set_error)

lemma estimateROI_error: "estimateROI sz sh = Inl e \<Longrightarrow> e = ValueError NoOverlap"
  by (auto simp: estimateROI_def Let_def split: if_splits)

lemma get_shift_error: "get_shift ms sz p t sh = Inl e \<Longrightarrow> e = ValueError NoOverlap"
  by (auto simp: get_shift_def Let_def split: sum.splits prod.splits dest: estimateROI_error)

lemma estimateMatch_error: "estimateMatch sz ts os a b sh = Inl e \<Longrightarrow> e = ValueError NoOverlap"
  by (auto simp: estimateMatch_def Let_def split: sum.splits prod.splits if_splits dest: estimateROI_error)

lemma collect_error: "collect rs = Inl e \<Longrightarrow> Inl e \<in> set rs"
  by (induction rs) (auto split: sum.splits)

lemma mean_shift_error:
  "mean_shift row col a = Inl e \<Longrightarrow> e = IndexError \<or> e = ValueError NotEnoughData"
  by (auto simp: mean_shift_def split: sum.splits if_splits dest!: collect_error get2_error[OF sym])

lemma fallback_shift_error:
  "fallback_shift ms s p t ex row col a l xm = Inl e \<Longrightarrow> e = IndexError \<or> e = ValueError NoOverlap"
  by (auto simp: fallback_shift_def Let_def
      split: prod.splits if_splits sum.splits error.splits
      dest: mean_shift_error get_shift_error estimateMatch_error)


lemma pos_to_left_right_raise:
  assumes "pos_to_left_right ms s row col xdir = Raise e s'"
  shows "tiles s' = tiles s \<and> shifts s' = shifts s \<and> acqOrder s' = acqOrder s
         \<and> size_yx s' = size_yx s \<and> px_size s' = px_size s \<and> ovrlp s' = ovrlp s
         \<and> shift_tile_dep_tiles s' = shift_tile_dep_tiles s \<and> posY s' = posY s \<and> posX s' = posX s
         \<and> nx s' = nx s
         \<and> (e = IndexError \<or> e = TypeError \<or> e = ValueError NoOverlap)"
  using assms unfolding pos_to_left_right_def Let_def
  by (auto split: sum.splits option.splits if_splits prod.splits outcome.splits
      dest: get2_error set2_error get_shift_error estimateMatch_error fallback_shift_error)

lemma pos_to_left_right_return:
  assumes "pos_to_left_right ms s row col xdir = Return r s'"
  shows "tiles s' = tiles s \<and> shifts s' = shifts s \<and> acqOrder s' = acqOrder s
         \<and> size_yx s' = size_yx s \<and> px_size s' = px_size s \<and> ovrlp s' = ovrlp s
         \<and> shift_tile_dep_tiles s' = shift_tile_dep_tiles s \<and> posY s' = posY s \<and> posX s' = posX s
         \<and> nx s' = nx s"
  using assms unfolding pos_to_left_right_def Let_def
  by (auto split: sum.splits option.splits if_splits prod.splits outcome.splits)

lemma pos_to_top_raise:
  assumes "pos_to_top ms s row col = Raise e s'"
  shows "tiles s' = tiles s \<and> shifts s' = shifts s \<and> acqOrder s' = acqOrder s
         \<and> size_yx s' = size_yx s \<and> px_size s' = px_size s \<and> ovrlp s' = ovrlp s
         \<and> shift_tile_dep_tiles s' = shift_tile_dep_tiles s \<and> posY s' = posY s \<and> posX s' = posX s
         \<and> nx s' = nx s
         \<and> (e = IndexError \<or> e = TypeError \<or> e = ValueError NoOverlap)"
  using assms unfolding pos_to_top_def Let_def
  by (auto split: sum.splits option.splits if_splits prod.splits outcome.splits
      dest: get2_error set2_error get_shift_error estimateMatch_error fallback_shift_error)

lemma pos_to_top_return:
  assumes "pos_to_top ms s row col = Return r s'"
  shows "tiles s' = tiles s \<and> shifts s' = shifts s \<and> acqOrder s' = acqOrder s
         \<and> size_yx s' = size_yx s \<and> px_size s' = px_size s \<and> ovrlp s' = ovrlp s
         \<and> shift_tile_dep_tiles s' = shift_tile_dep_tiles s \<and> posY s' = posY s \<and> posX s' = posX s
         \<and> nx s' = nx s"
  using assms unfolding pos_to_top_def Let_def
  by (auto split: sum.splits option.splits if_splits prod.splits outcome.splits)


lemma horizontal_estimate_raise:
  assumes "horizontal_estimate ms s row col = Raise e s'"
  shows "tiles s' = tiles s \<and> shifts s' = shifts s \<and> acqOrder s' = acqOrder s
         \<and> size_yx s' = size_yx s \<and> px_size s' = px_size s \<and> ovrlp s' = ovrlp s
         \<and> shift_tile_dep_tiles s' = shift_tile_dep_tiles s \<and> posY s' = posY s \<and> posX s' = posX s
         \<and> nx s' = nx s
         \<and> (e = IndexError \<or> e = TypeError \<or> e = ValueError NoOverlap)"
  using assms unfolding horizontal_estimate_def
  by (auto split: if_splits sum.splits option.splits dest: get2_error pos_to_left_right_raise)

lemma horizontal_estimate_return:
  assumes "horizontal_estimate ms s row col = Return r s'"
  shows "tiles s' = tiles s \<and> shifts s' = shifts s \<and> acqOrder s' = acqOrder s
         \<and> size_yx s' = size_yx s \<and> px_size s' = px_size s \<and> ovrlp s' = ovrlp s
         \<and> shift_tile_dep_tiles s' = shift_tile_dep_tiles s \<and> posY s' = posY s \<and> posX s' = posX s
         \<and> nx s' = nx s"
  using assms unfolding horizontal_estimate_def
  by (auto split: if_splits sum.splits option.splits dest: pos_to_left_right_return)

lemma vertical_estimate_raise:
  assumes "vertical_estimate ms s row col = Raise e s'"
  shows "tiles s' = tiles s \<and> shifts s' = shifts s \<and> acqOrder s' = acqOrder s
         \<and> size_yx s' = size_yx s \<and> px_size s' = px_size s \<and> ovrlp s' = ovrlp s
         \<and> shift_tile_dep_tiles s' = shift_tile_dep_tiles s \<and> posY s' = posY s \<and> posX s' = posX s
         \<and> nx s' = nx s
         \<and> (e = IndexError \<or> e = TypeError \<or> e = ValueError NoOverlap)"
  using assms unfolding vertical_estimate_def
  by (auto split: if_splits sum.splits option.splits dest: get2_error pos_to_top_raise)

lemma vertical_estimate_return:
  assumes "vertical_estimate ms s row col = Return r s'"
  shows "tiles s' = tiles s \<and> shifts s' = shifts s \<and> acqOrder s' = acqOrder s
         \<and> size_yx s' = size_yx s \<and> px_size s' = px_size s \<and> ovrlp s' = ovrlp s
         \<and> shift_tile_dep_tiles s' = shift_tile_dep_tiles s \<and> posY s' = posY s \<and> posX s' = posX s
         \<and> nx s' = nx s"
  using assms unfolding vertical_estimate_def
  by (auto split: if_splits sum.splits option.splits dest: pos_to_top_return)

text \<open>What compute_registration does to the grid of tiles, in each outcome.\<close>

lemma compute_registration_ordering:
  "(compute_registration ms s tile row col = Raise (ValueError OrderingError) s') =
     (ordering_guard (tiles s) row col = Inr True \<and> s' = s)"
proof
  assume a: "compute_registration ms s tile row col = Raise (ValueError OrderingError) s'"
  show "ordering_guard (tiles s) row col = Inr True \<and> s' = s"
  proof (cases "ordering_guard (tiles s) row col")
    case (Inl e)
    then have "e = IndexError"
      by (auto simp: ordering_guard_def split: if_splits sum.splits option.splits dest: get2_error)
    with a Inl show ?thesis by (simp add: compute_registration_def)
  next
    case (Inr b)
    show ?thesis
    proof (cases b)
      case True
      with a Inr show ?thesis by (simp add: compute_registration_def)
    next
      case False
      with a Inr show ?thesis
        unfolding compute_registration_def Let_def
        by (auto split: sum.splits outcome.splits prod.splits
            dest: set2_error horizontal_estimate_raise vertical_estimate_raise)
    qed
  qed
next
  assume "ordering_guard (tiles s) row col = Inr True \<and> s' = s"
  then show "compute_registration ms s tile row col = Raise (ValueError OrderingError) s'"
    by (simp add: compute_registration_def)
qed

lemma ordering_guard_True:
  "(ordering_guard g row col = Inr True) =
     (row \<ge> 1 \<and> col \<ge> 1 \<and> get2 g (row - 1) col = Inr None \<and> get2 g row (col - 1) = Inr None)"
  by (auto simp: ordering_guard_def split: sum.splits option.splits)



lemma grid_grows_refl: "grid_grows g g"
  by (simp add: grid_grows_def)

lemma grid_grows_trans: "grid_grows g g' \<Longrightarrow> grid_grows g' g'' \<Longrightarrow> grid_grows g g''"
  by (simp add: grid_grows_def)

lemma py_get_nonneg: "0 \<le> i \<Longrightarrow> py_get xs i = Inr v \<longleftrightarrow> (nat i < length xs \<and> xs ! nat i = v)"
  by (auto simp: py_get_def py_index_def split: option.splits if_splits)

lemma py_get_nonneg_Inl: "0 \<le> i \<Longrightarrow> py_get xs i = Inl e \<longleftrightarrow> (\<not> nat i < length xs \<and> e = IndexError)"
  by (auto simp: py_get_def py_index_def split: option.splits if_splits)

lemma get2_nonneg:
  "0 \<le> r \<Longrightarrow> 0 \<le> c \<Longrightarrow>
     get2 g r c = Inr v \<longleftrightarrow> (nat r < length g \<and> nat c < length (g ! nat r) \<and> g ! nat r ! nat c = v)"
  by (auto simp: get2_def py_get_nonneg py_get_nonneg_Inl split: sum.splits)

lemma grid_grows_append_row: "grid_grows g (g @ [row])"
  by (auto simp: grid_grows_def get2_nonneg nth_append)

lemma grid_grows_append_col: "grid_grows g (g[i := g ! i @ [x]])"
proof -
  have ext: "\<exists>suffix. g[i := g ! i @ [x]] ! k = g ! k @ suffix" if "k < length g" for k
  proof (cases "k = i")
    case True
    with that show ?thesis by simp
  next
    case False
    then have "g[i := g ! i @ [x]] ! k = g ! k @ []" by simp
    then show ?thesis by blast
  qed
  show ?thesis
    unfolding grid_grows_def
  proof (intro allI impI)
    fix r c v
    assume r: "0 \<le> r" and c: "0 \<le> c" and g: "get2 g r c = Inr v"
    from g r c have a: "nat r < length g" "nat c < length (g ! nat r)" "g ! nat r ! nat c = v"
      by (simp_all add: get2_nonneg)
    from ext [OF a(1)] obtain suffix where "g[i := g ! i @ [x]] ! nat r = g ! nat r @ suffix" ..
    with a r c show "get2 (g[i := g ! i @ [x]]) r c = Inr v"
      by (simp add: get2_nonneg nth_append)
  qed
qed

lemma updateGrid_x_grows:
  "updateGrid_x is s = Raise e s' \<or> updateGrid_x is s = Return u s' \<Longrightarrow>
     grid_grows (tiles s) (tiles s') \<and> grid_grows (shifts s) (shifts s')
     \<and> acqOrder s' = acqOrder s \<and> size_yx s' = size_yx s \<and> px_size s' = px_size s
     \<and> shift_tile_dep_tiles s' = shift_tile_dep_tiles s \<and> posY s' = posY s \<and> posX s' = posX s"
proof (induction "is" arbitrary: s)
  case Nil
  then show ?case by (auto simp: grid_grows_refl)
next
  case (Cons i rest)
  let ?s1 = "s\<lparr>tiles := (tiles s)[i := tiles s ! i @ [None]]\<rparr>"
  let ?s2 = "?s1\<lparr>coords_ver := (coords_ver ?s1)[i := coords_ver ?s1 ! i @ [None]]\<rparr>"
  let ?s3 = "?s2\<lparr>coords_hor := (coords_hor ?s2)[i := coords_hor ?s2 ! i @ [None]]\<rparr>"
  let ?s4 = "?s3\<lparr>shifts := (shifts ?s3)[i := shifts ?s3 ! i @ [None]]\<rparr>"
  have t: "grid_grows (tiles s) (tiles ?s1)" by (simp add: grid_grows_append_col)
  have sh: "grid_grows (shifts s) (shifts ?s4)" by (simp add: grid_grows_append_col)
  show ?case
  proof (cases "length (coords_ver ?s1) \<le> i \<or> length (coords_hor ?s2) \<le> i \<or> length (shifts ?s3) \<le> i")
    case True
    with Cons.prems t show ?thesis
      by (auto simp: Let_def grid_grows_refl split: if_splits)
  next
    case False
    with Cons.prems have "updateGrid_x rest ?s4 = Raise e s' \<or> updateGrid_x rest ?s4 = Return u s'"
      by (auto simp: Let_def)
    from Cons.IH [OF this] t sh show ?thesis
      by (auto intro: grid_grows_trans)
  qed
qed



lemma updateGrid_grows:
  "updateGrid s d = Raise e s' \<or> updateGrid s d = Return u s' \<Longrightarrow>
     grid_grows (tiles s) (tiles s') \<and> grid_grows (shifts s) (shifts s')
     \<and> acqOrder s' = acqOrder s \<and> size_yx s' = size_yx s \<and> px_size s' = px_size s
     \<and> shift_tile_dep_tiles s' = shift_tile_dep_tiles s \<and> posY s' = posY s \<and> posX s' = posX s"
proof (cases "d = ''x''")
  case True
  assume "updateGrid s d = Raise e s' \<or> updateGrid s d = Return u s'"
  with True have "updateGrid_x [0..<length (tiles s)] (s\<lparr>nx := nx s + 1\<rparr>) = Raise e s'
      \<or> updateGrid_x [0..<length (tiles s)] (s\<lparr>nx := nx s + 1\<rparr>) = Return u s'"
    by (simp add: updateGrid_def Let_def)
  from updateGrid_x_grows [OF this] show ?thesis by simp
next
  case False
  assume "updateGrid s d = Raise e s' \<or> updateGrid s d = Return u s'"
  with False show ?thesis
    by (auto simp: updateGrid_def grid_grows_append_row)
qed

lemma updateGrid_error: "updateGrid s d = Raise e s' \<Longrightarrow> e = IndexError"
proof -
  have "updateGrid_x is s0 = Raise e s' \<Longrightarrow> e = IndexError" for "is" s0
    by (induction "is" arbitrary: s0) (auto simp: Let_def split: if_splits)
  moreover assume "updateGrid s d = Raise e s'"
  ultimately show ?thesis
    by (auto simp: updateGrid_def Let_def split: if_splits)
qed

lemmas updateGrid_Raise = updateGrid_grows [OF disjI1]
lemmas updateGrid_Return = updateGrid_grows [OF disjI2]

lemma insert_slot_outcome:
  assumes "insert_slot s pp v h = Raise e s' \<or> insert_slot s pp v h = Return u s'"
  shows "grid_grows (tiles s) (tiles s') \<and> grid_grows (shifts s) (shifts s')
     \<and> acqOrder s' = acqOrder s \<and> size_yx s' = size_yx s \<and> px_size s' = px_size s
     \<and> shift_tile_dep_tiles s' = shift_tile_dep_tiles s"
  using assms unfolding insert_slot_def Let_def
  by (auto split: if_splits sum.splits simp: grid_grows_refl
      dest!: updateGrid_Raise updateGrid_Return)

lemma insert_slot_error: "insert_slot s pp v h = Raise e s' \<Longrightarrow> e = IndexError"
  unfolding insert_slot_def Let_def
  by (auto split: if_splits sum.splits dest: updateGrid_error py_get_error)


lemma closest_loop_found:
  assumes "closest_loop g pos ijs best = Inr (Some (d, (i, j), md))"
    and "\<And>d0 i0 j0 md0. best = Some (d0, (i0, j0), md0) \<Longrightarrow> \<exists>t. get2 g (int i0) (int j0) = Inr (Some t)"
  shows "\<exists>t. get2 g (int i) (int j) = Inr (Some t)"
  using assms
proof (induction ijs arbitrary: best)
  case Nil
  then show ?case by simp
next
  case (Cons ij rest)
  obtain i1 j1 where ij: "ij = (i1, j1)" by (cases ij)
  show ?case
  proof (cases "get2 g (int i1) (int j1)")
    case (Inl e)
    with Cons.prems(1) ij show ?thesis by simp
  next
    case (Inr cell)
    show ?thesis
    proof (cases cell)
      case None
      with Cons.prems Inr ij show ?thesis by (auto intro: Cons.IH)
    next
      case (Some t)
      let ?dist = "hypot (fst pos - fst (md_pos t)) (snd pos - snd (md_pos t))"
      let ?new = "Some (?dist, (i1, j1), md_pos t)"
      from Cons.prems(1) Inr Some ij
      have "closest_loop g pos rest ?new = Inr (Some (d, (i, j), md))
          \<or> closest_loop g pos rest best = Inr (Some (d, (i, j), md))"
        by (auto simp: Let_def split: if_splits)
      then show ?thesis
      proof
        assume a: "closest_loop g pos rest ?new = Inr (Some (d, (i, j), md))"
        show ?thesis
          by (rule Cons.IH [OF a]) (use Inr Some in auto)
      next
        assume a: "closest_loop g pos rest best = Inr (Some (d, (i, j), md))"
        show ?thesis
          by (rule Cons.IH [OF a]) (use Cons.prems(2) in auto)
      qed
    qed
  qed
qed

lemma find_closest_tile_found:
  assumes "find_closest_tile s pos = Inr ((r, c), md)"
  shows "0 \<le> r \<and> 0 \<le> c \<and> (\<exists>t. get2 (tiles s) r c = Inr (Some t))"
proof -
  from assms obtain d i j where
    l: "closest_loop (tiles s) pos
          (List.product [0..<fst (shape (tiles s))] [0..<snd (shape (tiles s))]) None
        = Inr (Some (d, (i, j), md))" and rc: "r = int i" "c = int j"
    by (auto simp: find_closest_tile_def split: sum.splits option.splits prod.splits)
  from closest_loop_found [OF l] rc show ?thesis by simp
qed

lemma find_closest_tile_error:
  "find_closest_tile s pos = Inl e \<Longrightarrow> e = IndexError \<or> e = UnboundLocalError"
proof -
  have "closest_loop g p ijs best = Inl e \<Longrightarrow> e = IndexError" for g p ijs best
    by (induction g p ijs best rule: closest_loop.induct)
       (auto simp: Let_def split: sum.splits option.splits if_splits dest: get2_error)
  moreover assume "find_closest_tile s pos = Inl e"
  ultimately show ?thesis
    by (auto simp: find_closest_tile_def split: sum.splits option.splits prod.splits)
qed

text \<open>Either the grid is as before, or the closest tile is the neighbour above or on the left.\<close>

lemma insert_slot_neighbour:
  assumes "insert_slot s (r, c) v h = Return u s1"
    and "get2 (tiles s) r c = Inr (Some t)" and "0 \<le> r" and "0 \<le> c"
  shows "(tiles s1 = tiles s \<and> shifts s1 = shifts s)
         \<or> get2 (tiles s1) (posY s1 - 1) (posX s1) = Inr (Some t)
         \<or> get2 (tiles s1) (posY s1) (posX s1 - 1) = Inr (Some t)"
proof -
  from insert_slot_outcome [OF disjI2, OF assms(1)] assms(2-4)
  have g: "get2 (tiles s1) r c = Inr (Some t)"
    by (simp add: grid_grows_def)
  have "(tiles s1 = tiles s \<and> shifts s1 = shifts s)
         \<or> (posY s1 = r + 1 \<and> posX s1 = c) \<or> (posY s1 = r \<and> posX s1 = c + 1)"
    using assms(1) unfolding insert_slot_def Let_def
    by (auto split: if_splits sum.splits dest!: updateGrid_Return)
  with g show ?thesis by auto
qed

lemma compute_overlap_outcome:
  "compute_overlap s tile md v h = Raise e s' \<Longrightarrow> e = ZeroDivisionError \<and> s' = s"
  "compute_overlap s tile md v h = Return u s' \<Longrightarrow>
     tiles s' = tiles s \<and> shifts s' = shifts s \<and> acqOrder s' = acqOrder s
     \<and> size_yx s' = size_yx s \<and> px_size s' = px_size s
     \<and> shift_tile_dep_tiles s' = shift_tile_dep_tiles s \<and> posY s' = posY s \<and> posX s' = posX s
     \<and> pos_prev_x s' = pos_prev_x s"
  by (auto simp: compute_overlap_def Let_def split: if_splits)


lemma locate_error:
  "locate s tile = Raise e s' \<Longrightarrow>
     e = IndexError \<or> e = UnboundLocalError \<or> e = ZeroDivisionError \<or> e = ValueError ShapeMismatch"
  unfolding locate_def Let_def
  by (auto split: sum.splits option.splits if_splits prod.splits outcome.splits
      dest: get2_error find_closest_tile_error insert_slot_error compute_overlap_outcome(1))

lemma locate_return:
  assumes "locate s tile = Return u s1"
  shows "grid_grows (tiles s) (tiles s1) \<and> grid_grows (shifts s) (shifts s1)
         \<and> acqOrder s1 = acqOrder s \<and> shift_tile_dep_tiles s1 = shift_tile_dep_tiles s"
  using assms unfolding locate_def Let_def
  by (auto split: sum.splits option.splits if_splits prod.splits outcome.splits
      simp: grid_grows_refl
      dest!: insert_slot_outcome [OF disjI2] compute_overlap_outcome(2))

lemma locate_no_growth:
  assumes "locate s tile = Return u s1"
    and "get2 (tiles s1) (posY s1 - 1) (posX s1) = Inr None"
    and "get2 (tiles s1) (posY s1) (posX s1 - 1) = Inr None"
    and "1 \<le> posY s1"
  shows "tiles s1 = tiles s \<and> shifts s1 = shifts s"
proof (cases "get2 (tiles s) 0 0")
  case (Inl e)
  with assms(1) show ?thesis by (simp add: locate_def)
next
  case (Inr cell)
  show ?thesis
  proof (cases cell)
    case None
    with assms(1,4) Inr show ?thesis by (auto simp: locate_def)
  next
    case (Some tile00)
    with assms(1) Inr obtain r c md s2 where
      f: "find_closest_tile s (md_pos tile) = Inr ((r, c), md)" and
      i: "insert_slot s (r, c) (snd (md_pos tile) - snd md) (fst (md_pos tile) - fst md) = Return () s2" and
      o: "compute_overlap (s2\<lparr>pos_prev_x := c\<rparr>) tile md (snd (md_pos tile) - snd md)
            (fst (md_pos tile) - fst md) = Return u s1"
      unfolding locate_def Let_def
      by (auto split: sum.splits if_splits prod.splits outcome.splits)
    from find_closest_tile_found [OF f] obtain t where
      t: "0 \<le> r" "0 \<le> c" "get2 (tiles s) r c = Inr (Some t)" by blast
    from compute_overlap_outcome(2) [OF o]
    have e: "tiles s1 = tiles s2" "shifts s1 = shifts s2" "posY s1 = posY s2" "posX s1 = posX s2"
      by simp_all
    from insert_slot_neighbour [OF i t(3) t(1) t(2)] e assms(2,3) show ?thesis by auto
  qed
qed

lemma store_dep_shifts_returns:
  "shift_tile_dep_tiles s \<noteq> [] \<Longrightarrow>
     store_dep_shifts s tile deps =
       Return () (s\<lparr>shift_tile_dep_tiles :=
          butlast (shift_tile_dep_tiles s)
          @ [last (shift_tile_dep_tiles s)
             @ map (\<lambda>dt. (fst (md_pos dt) - fst (md_pos tile), snd (md_pos dt) - snd (md_pos tile))) deps]\<rparr>)"
  by (induction deps arbitrary: s) (simp_all add: Let_def)

lemma addTile_unfold:
  "addTile ms s tile dependent_tiles =
     (case dependent_tiles of
        None \<Rightarrow>
          (case locate s tile of
             Raise e s' \<Rightarrow> Raise e s'
           | Return _ s1 \<Rightarrow> compute_registration ms s1 tile (posY s1) (posX s1))
      | Some ds \<Rightarrow>
          (case locate (s\<lparr>shift_tile_dep_tiles := shift_tile_dep_tiles s @ [[]]\<rparr>) tile of
             Raise e s' \<Rightarrow> Raise e s'
           | Return _ s1 \<Rightarrow>
               compute_registration ms
                 (s1\<lparr>shift_tile_dep_tiles :=
                       shift_tile_dep_tiles s
                       @ [map (\<lambda>dt. (fst (md_pos dt) - fst (md_pos tile),
                                     snd (md_pos dt) - snd (md_pos tile))) ds]\<rparr>)
                 tile (posY s1) (posX s1)))"
proof (cases dependent_tiles)
  case None
  then show ?thesis by (simp add: addTile_def split: outcome.splits)
next
  case (Some ds)
  show ?thesis
  proof (cases "locate (s\<lparr>shift_tile_dep_tiles := shift_tile_dep_tiles s @ [[]]\<rparr>) tile")
    case (Raise e s')
    with Some show ?thesis by (simp add: addTile_def)
  next
    case (Return u s1)
    from locate_return [OF Return]
    have d: "shift_tile_dep_tiles s1 = shift_tile_dep_tiles s @ [[]]" by simp
    then have "shift_tile_dep_tiles s1 \<noteq> []" by simp
    from store_dep_shifts_returns [OF this, of tile ds] d Some Return show ?thesis
      by (simp add: addTile_def Let_def)
  qed
qed


lemma addTile_ordering_aux:
  "((case locate s0 tile of
          Raise e s' \<Rightarrow> Raise e s'
        | Return _ s1 \<Rightarrow> compute_registration ms (f s1) tile (posY s1) (posX s1))
      = Raise (ValueError OrderingError) s') =
     (\<exists>s1. locate s0 tile = Return () s1 \<and> s' = f s1
         \<and> ordering_guard (tiles (f s1)) (posY s1) (posX s1) = Inr True)"
proof (cases "locate s0 tile")
  case (Raise e s1)
  from locate_error [OF this] Raise show ?thesis by auto
next
  case (Return u s1)
  then show ?thesis by (auto simp: compute_registration_ordering)
qed

text \<open>
  C5. \<^verbatim>\<open>addTile\<close> raises the error of \<^verbatim>\<open>_compute_registration\<close> (OrderingError)
  exactly when the slot it computes for the tile, (posY, posX) after the location of the
  tile in the grid, has row > 0 and column > 0 and the slots above and on the left are
  both empty; and when it does, the grids of tiles and of positions and the acquisition
  order are as before the call: no position is stored for the tile.
\<close>

theorem addTile_ordering_error:
  "((\<exists>s'. addTile ms s tile dependent_tiles = Raise (ValueError OrderingError) s') \<longleftrightarrow>
      (\<exists>s1. locate (case dependent_tiles of
                       None \<Rightarrow> s
                     | Some _ \<Rightarrow> s\<lparr>shift_tile_dep_tiles := shift_tile_dep_tiles s @ [[]]\<rparr>) tile
               = Return () s1
            \<and> 1 \<le> posY s1 \<and> 1 \<le> posX s1
            \<and> get2 (tiles s1) (posY s1 - 1) (posX s1) = Inr None
            \<and> get2 (tiles s1) (posY s1) (posX s1 - 1) = Inr None))
   \<and> (\<forall>s'. addTile ms s tile dependent_tiles = Raise (ValueError OrderingError) s' \<longrightarrow>
          tiles s' = tiles s \<and> shifts s' = shifts s \<and> acqOrder s' = acqOrder s)"
proof -
  have ng: "tiles s1 = tiles s0 \<and> shifts s1 = shifts s0 \<and> acqOrder s1 = acqOrder s0"
    if "locate s0 tile = Return () s1" "1 \<le> posY s1"
       "get2 (tiles s1) (posY s1 - 1) (posX s1) = Inr None"
       "get2 (tiles s1) (posY s1) (posX s1 - 1) = Inr None" for s0 s1
    using locate_no_growth [OF that(1) that(3) that(4) that(2)] locate_return [OF that(1)]
    by simp
  show ?thesis
  proof (cases dependent_tiles)
    case None
    have eq: "(addTile ms s tile dependent_tiles = Raise (ValueError OrderingError) s') =
        (\<exists>s1. locate s tile = Return () s1 \<and> s' = s1
           \<and> ordering_guard (tiles s1) (posY s1) (posX s1) = Inr True)" for s'
      using addTile_ordering_aux [where ?s0.0 = s and f = "\<lambda>x. x" and s' = s'] None
      by (simp add: addTile_unfold)
    show ?thesis
      unfolding eq using None
      by (auto simp: ordering_guard_True dest: ng)
  next
    case (Some ds)
    let ?s0 = "s\<lparr>shift_tile_dep_tiles := shift_tile_dep_tiles s @ [[]]\<rparr>"
    let ?f = "\<lambda>s1. s1\<lparr>shift_tile_dep_tiles :=
                 shift_tile_dep_tiles s
                 @ [map (\<lambda>dt. (fst (md_pos dt) - fst (md_pos tile),
                               snd (md_pos dt) - snd (md_pos tile))) ds]\<rparr>"
    have eq: "(addTile ms s tile dependent_tiles = Raise (ValueError OrderingError) s') =
        (\<exists>s1. locate ?s0 tile = Return () s1 \<and> s' = ?f s1
           \<and> ordering_guard (tiles s1) (posY s1) (posX s1) = Inr True)" for s'
      using addTile_ordering_aux [where ?s0.0 = ?s0 and f = ?f and s' = s'] Some
      by (simp add: addTile_unfold)
    show ?thesis
      unfolding eq using Some
      by (auto simp: ordering_guard_True dest: ng)
  qed
qed


lemma hypot_ge1: "\<bar>x\<bar> \<le> hypot x y"
  unfolding hypot_def by (rule real_le_rsqrt) (simp add: power2_eq_square)

lemma hypot_ge2: "\<bar>y\<bar> \<le> hypot x y"
  unfolding hypot_def by (rule real_le_rsqrt) (simp add: power2_eq_square)

text \<open>No plausible shift reaches the extent of the tile: the match never raises.\<close>

lemma estimateMatch_returns:
  assumes "sqrt 2 * (real_of_int ts - os) + os * EXTREME_SHIFT < real (min (fst sz) (snd sz))"
  shows "\<exists>m. estimateMatch sz ts os a b sh = Inr m"
proof (cases "estimateMatch sz ts os a b sh")
  case (Inr m)
  then show ?thesis by blast
next
  case (Inl e)
  let ?hy = "hypot (real_of_int (fst sh)) (real_of_int (snd sh))"
  from Inl have hi: "?hy \<le> sqrt 2 * (real_of_int ts - os) + os * EXTREME_SHIFT"
    and roi: "estimateROI sz sh = Inl e"
    by (auto simp: estimateMatch_def Let_def split: if_splits sum.splits prod.splits)
  from roi have "int (snd sz) \<le> fst sh \<or> int (fst sz) \<le> snd sh"
    by (auto simp: estimateROI_def Let_def split: if_splits)
  then have "real (min (fst sz) (snd sz)) \<le> ?hy"
  proof
    assume "int (snd sz) \<le> fst sh"
    then have "real (snd sz) \<le> \<bar>real_of_int (fst sh)\<bar>" by linarith
    also have "\<dots> \<le> ?hy" by (rule hypot_ge1)
    finally show ?thesis by simp
  next
    assume "int (fst sz) \<le> snd sh"
    then have "real (fst sz) \<le> \<bar>real_of_int (snd sh)\<bar>" by linarith
    also have "\<dots> \<le> ?hy" by (rule hypot_ge2)
    finally show ?thesis by simp
  qed
  with hi assms show ?thesis by simp
qed

lemma get_shift_returns:
  "fst sh < int (snd sz) \<Longrightarrow> snd sh < int (fst sz) \<Longrightarrow> \<exists>xy. get_shift ms sz p t sh = Inr xy"
  by (auto simp: get_shift_def estimateROI_def Let_def)

lemma set2_succeeds: "get2 g r c = Inr x \<Longrightarrow> \<exists>g'. set2 g r c v = Inr g'"
  by (auto simp: get2_def set2_def py_get_def py_set_def py_index_def split: option.splits sum.splits if_splits)

lemma fallback_shift_skipped:
  "row \<le> 1 \<Longrightarrow> col \<le> 1 \<Longrightarrow> fallback_shift ms s p t ex row col a l xm = Inr xm"
  by (cases xm) (simp add: fallback_shift_def)

lemma pos_to_left_right_returns:
  assumes tile: "get2 (tiles s) row col = Inr (Some tile)"
    and dir: "(xdir = LEFT \<and> col > 0 \<and> ncol = col - 1) \<or> (xdir = RIGHT \<and> col < int (nx s) \<and> ncol = col + 1)"
    and pp: "get2 (shifts s) row ncol = Inr (Some pp)"
    and pt: "get2 (tiles s) row ncol = Inr (Some prev_tile)"
    and roi: "tsize s < int (snd (size_yx s))" "0 < fst (size_yx s)"
    and plaus: "sqrt 2 * (real_of_int (tsize s) - osize s) + osize s * EXTREME_SHIFT
                  < real (min (fst (size_yx s)) (snd (size_yx s)))"
    and nofb: "row \<le> 1" "col \<le> 1"
    and cell: "get2 (coords_hor s) row col = Inr cv"
  shows "\<exists>p m s'. pos_to_left_right ms s row col xdir = Return (Some p, m) s'"
proof -
  have nc: "(if xdir = LEFT then col - 1 else col + 1) = ncol"
    using dir by (auto simp: LEFT_def RIGHT_def)
  have cond: "(xdir = LEFT \<and> col > 0) \<or> (xdir = RIGHT \<and> col < int (nx s))"
    using dir by auto
  from roi have gs: "\<exists>xy. get_shift ms (size_yx s) a b (tsize s, 0) = Inr xy" for a b
    by (intro get_shift_returns) simp_all
  have "\<exists>x y. (if xdir = LEFT then get_shift ms (size_yx s) prev_tile tile (tsize s, 0)
        else (case get_shift ms (size_yx s) tile prev_tile (tsize s, 0) of
                Inl e \<Rightarrow> Inl e | Inr (x, y) \<Rightarrow> Inr (- x, - y))) = Inr (x, y)"
  proof (cases "xdir = LEFT")
    case True
    from gs [of prev_tile tile] obtain xy where "get_shift ms (size_yx s) prev_tile tile (tsize s, 0) = Inr xy" ..
    with True show ?thesis by (cases xy) simp
  next
    case False
    from gs [of tile prev_tile] obtain xy where "get_shift ms (size_yx s) tile prev_tile (tsize s, 0) = Inr xy" ..
    with False show ?thesis by (cases xy) simp
  qed
  then obtain x y where xy: "(if xdir = LEFT then get_shift ms (size_yx s) prev_tile tile (tsize s, 0)
        else (case get_shift ms (size_yx s) tile prev_tile (tsize s, 0) of
                Inl e \<Rightarrow> Inl e | Inr (x, y) \<Rightarrow> Inr (- x, - y))) = Inr (x, y)"
    by blast
  from estimateMatch_returns [OF plaus] obtain m where
    m: "estimateMatch (size_yx s) (tsize s) (osize s) (pixels prev_tile) (pixels tile)
          (tsize s - x, - y) = Inr m" by blast
  have fb: "fallback_shift ms s prev_tile tile (tsize s, 0) row col (coords_hor s) (last_hor s) ((x, y), m)
      = Inr ((x, y), m)"
    by (rule fallback_shift_skipped [OF nofb])
  from cell have "get2 (coords_hor (s\<lparr>last_hor := (x, y)\<rparr>)) row col = Inr cv" by simp
  from set2_succeeds [OF this] obtain c where
    c: "set2 (coords_hor (s\<lparr>last_hor := (x, y)\<rparr>)) row col (Some (x, y)) = Inr c" by blast
  show ?thesis
    unfolding pos_to_left_right_def Let_def
    using cond c by (simp add: tile nc pp pt xy m fb)
qed


lemma pos_to_top_returns:
  assumes tile: "get2 (tiles s) row col = Inr (Some tile)"
    and row: "row > 0"
    and pp: "get2 (shifts s) (row - 1) col = Inr (Some pp)"
    and pt: "get2 (tiles s) (row - 1) col = Inr (Some prev_tile)"
    and roi: "tsize s < int (fst (size_yx s))" "0 < snd (size_yx s)"
    and plaus: "sqrt 2 * (real_of_int (tsize s) - osize s) + osize s * EXTREME_SHIFT
                  < real (min (fst (size_yx s)) (snd (size_yx s)))"
    and nofb: "row \<le> 1" "col \<le> 1"
    and cell: "get2 (coords_ver s) row col = Inr cv"
  shows "\<exists>p m s'. pos_to_top ms s row col = Return (Some p, m) s'"
proof -
  from roi have "\<exists>xy. get_shift ms (size_yx s) prev_tile tile (0, tsize s) = Inr xy"
    by (intro get_shift_returns) simp_all
  then obtain x y where xy: "get_shift ms (size_yx s) prev_tile tile (0, tsize s) = Inr (x, y)"
    by fastforce
  from estimateMatch_returns [OF plaus] obtain m where
    m: "estimateMatch (size_yx s) (tsize s) (osize s) (pixels prev_tile) (pixels tile)
          (- x, tsize s - y) = Inr m" by blast
  have fb: "fallback_shift ms s prev_tile tile (0, tsize s) row col (coords_ver s) (last_ver s) ((x, y), m)
      = Inr ((x, y), m)"
    by (rule fallback_shift_skipped [OF nofb])
  from cell have "get2 (coords_ver (s\<lparr>last_ver := (x, y)\<rparr>)) row col = Inr cv" by simp
  from set2_succeeds [OF this] obtain c where
    c: "set2 (coords_ver (s\<lparr>last_ver := (x, y)\<rparr>)) row col (Some (x, y)) = Inr c" by blast
  show ?thesis
    unfolding pos_to_top_def Let_def
    using row c by (simp add: tile pp pt xy m fb)
qed

subsection \<open>Evaluating sessions\<close>

lemma hypot_less_iff: "hypot a b < hypot c d \<longleftrightarrow> a * a + b * b < c * c + d * d"
  by (simp add: hypot_def)

lemmas grid_defs = get2_def set2_def py_get_def py_set_def py_index_def shape_def
lemmas locate_defs = locate_def insert_slot_def compute_overlap_def find_closest_tile_def
  updateGrid_def py_int_def hypot_less_iff

lemma first_addTile:
  "addTile ms registrar_init t None = Return () (first_state t)"
  by (simp add: addTile_def locate_def compute_registration_def ordering_guard_def
      horizontal_estimate_def vertical_estimate_def reconcile_def py_int_def grid_defs
      registrar_init_def first_state_def)

lemma left_locate:
  "locate (first_state (ex_tile (0, 0))) (ex_tile (- 1, 0)) =
     Return () ((first_state (ex_tile (0, 0)))
       \<lparr>posY := 0, posX := - 1, pos_prev_x := 0, ovrlp := 1 / 2, osize := 1, tsize := 1\<rparr>)"
  by (simp add: locate_defs grid_defs first_state_def ex_tile_def Let_def)


lemma compute_registration_returns:
  assumes guard: "ordering_guard (tiles s) row col = Inr False"
    and st: "set2 (tiles s) row col (Some tile) = Inr g"
    and he: "horizontal_estimate ms (s\<lparr>tiles := g\<rparr>) row col = Return (pos, match) s2"
    and ve: "vertical_estimate ms s2 row col = Return (pos2, match2) s3"
    and cell: "get2 (shifts s) row col = Inr c"
  shows "\<exists>sh. compute_registration ms s tile row col
               = Return () (s3\<lparr>shifts := sh, acqOrder := acqOrder s @ [(row, col)]\<rparr>)
            \<and> tiles s3 = g"
proof -
  from horizontal_estimate_return [OF he] vertical_estimate_return [OF ve]
  have f: "shifts s3 = shifts s" "acqOrder s3 = acqOrder s" "tiles s3 = g" by simp_all
  from cell f have "get2 (shifts s3) row col = Inr c" by simp
  from set2_succeeds [OF this] obtain sh where
    "set2 (shifts s3) row col
       (Some (reconcile pos match pos2 match2
          (py_int (real_of_int col * (real (snd (size_yx s)) * (1 - ovrlp s))),
           py_int (real_of_int row * (real (fst (size_yx s)) * (1 - ovrlp s)))))) = Inr sh"
    by blast
  then show ?thesis
    unfolding compute_registration_def Let_def
    by (auto simp: guard st he ve f)
qed

lemma left_addTile:
  "\<exists>s. addTile ms (first_state (ex_tile (0, 0))) (ex_tile (- 1, 0)) None = Return () s
      \<and> posY s = 0 \<and> posX s = - 1 \<and> tiles s = [[Some (ex_tile (- 1, 0))]]
      \<and> acqOrder s = [(0, 0), (0, - 1)]"
proof -
  let ?t = "ex_tile (- 1, 0)"
  let ?L = "(first_state (ex_tile (0, 0)))
       \<lparr>posY := 0, posX := - 1, pos_prev_x := 0, ovrlp := 1 / 2, osize := 1, tsize := 1\<rparr>"
  let ?L' = "?L\<lparr>tiles := [[Some ?t]]\<rparr>"
  have "\<exists>p m s'. pos_to_left_right ms ?L' 0 (- 1) RIGHT = Return (Some p, m) s'"
    by (rule pos_to_left_right_returns [where ncol = 0 and pp = "(0, 0)" and prev_tile = ?t and tile = ?t and cv = None])
       (simp_all add: first_state_def grid_defs ex_tile_def EXTREME_SHIFT_def)
  then obtain p m s' where h: "pos_to_left_right ms ?L' 0 (- 1) RIGHT = Return (Some p, m) s'"
    by blast
  from pos_to_left_right_return [OF h]
  have f: "posY s' = 0" "posX s' = - 1"
    by (simp_all add: first_state_def)
  have he: "horizontal_estimate ms ?L' 0 (- 1) = Return (Some p, m) s'"
    using h by (simp add: horizontal_estimate_def first_state_def grid_defs)
  have ve: "vertical_estimate ms s' 0 (- 1) = Return (None, Score 0) s'"
    by (simp add: vertical_estimate_def)
  have "\<exists>sh. compute_registration ms ?L ?t 0 (- 1)
               = Return () (s'\<lparr>shifts := sh, acqOrder := acqOrder ?L @ [(0, - 1)]\<rparr>)
            \<and> tiles s' = [[Some ?t]]"
    by (rule compute_registration_returns [OF _ _ he ve, where c = "Some (0, 0)"])
       (simp_all add: first_state_def grid_defs ordering_guard_def)
  then obtain sh where cr: "compute_registration ms ?L ?t 0 (- 1)
               = Return () (s'\<lparr>shifts := sh, acqOrder := acqOrder ?L @ [(0, - 1)]\<rparr>)"
     and t: "tiles s' = [[Some ?t]]" by blast
  have "addTile ms (first_state (ex_tile (0, 0))) ?t None = compute_registration ms ?L ?t (posY ?L) (posX ?L)"
    unfolding addTile_unfold left_locate by simp
  also have "\<dots> = compute_registration ms ?L ?t 0 (- 1)" by simp
  finally have "addTile ms (first_state (ex_tile (0, 0))) ?t None
       = Return () (s'\<lparr>shifts := sh, acqOrder := acqOrder ?L @ [(0, - 1)]\<rparr>)"
    using cr by simp
  then show ?thesis
    using f t by (auto simp: first_state_def)
qed

subsection \<open>Sessions of ShiftRegistrar\<close>

lemmas add_defs = addTile_def locate_def compute_registration_def ordering_guard_def
  horizontal_estimate_def vertical_estimate_def reconcile_def py_int_def insert_slot_def compute_overlap_def
  find_closest_tile_def updateGrid_def
lemmas est_defs = pos_to_left_right_def pos_to_top_def fallback_shift_def get_shift_def estimateMatch_def
  estimateROI_def crop_def LEFT_def RIGHT_def BEST_MATCH_def GOOD_MATCH_def EXTREME_SHIFT_def score_gt_def mean_shift_def
  hypot_def


lemma ex_tile_sel [simp]:
  "md_pos (ex_tile p) = p" "md_pixel_size (ex_tile p) = (1, 1)" "pixels (ex_tile p) = [[1, 2], [3, 4]]"
  by (simp_all add: ex_tile_def)

lemma getPositions_first:
  "getPositions (first_state (ex_tile (0, 0))) = Inr ([(0, 0)], [])"
  by (simp add: getPositions_def first_state_def grid_defs)

text \<open>
  C8. The second list of getPositions is claimed to hold one entry for each tile added,
  an empty list for a tile without dependents, as the docstrings of both registrars say
  (a list of N entries for N tiles). Neither registrar appends an entry when
  \<^verbatim>\<open>dependent_tiles\<close> is None: after one tile added without dependents, the second
  list is empty.
\<close>

theorem dependents_entry_missing:
  "addTile ms registrar_init (ex_tile (0, 0)) None = Return () (first_state (ex_tile (0, 0)))
   \<and> getPositions (first_state (ex_tile (0, 0))) = Inr ([(0, 0)], [])
   \<and> identity_getPositions (identity_addTile identity_init (ex_tile (0, 0)) None) = ([(0, 0)], [])"
  by (simp add: first_addTile getPositions_first identity_getPositions_def identity_addTile_def
      identity_init_def)

text \<open>
  C7. The position returned for a dependent tile is claimed to be the resolved position
  of its main tile plus its offset. A first tile at (0, 0) added without dependents, then
  a tile at (1, 0) with one dependent tile at (1, 5), of offset (0, 5): the main tile is
  resolved at (1, 0), and the dependent tile is returned at (0, 5), the position of the
  first tile plus the offset, since the first call appended no entry to the list of
  offsets.
\<close>

theorem dependent_position_misplaced:
  "(case run no_drift registrar_init
           [(ex_tile (0, 0), None), (ex_tile (1, 0), Some [ex_tile (1, 5)])] of
      Raise e s \<Rightarrow> Inl e
    | Return u s \<Rightarrow> getPositions s) = Inr ([(0, 0), (1, 0)], [[(0, 5)]])"
  by (simp add: add_defs est_defs grid_defs getPositions_def dep_positions_def registrar_init_def
      no_drift_def Let_def)

lemma ordering_session_state:
  "session_state no_drift registrar_init ordering_session =
     \<lparr>nx = 3, ny = 1,
      coords_ver = [[None, None, None], [None, None, None], [None, None, None]],
      coords_hor = [[None, None, None], [None, None, None], [None, None, None]],
      shifts = [[Some (0, 0), None, None], [Some (0, 1), None, None],
                [Some (0, 2), Some (1, 2), Some (2, 2)]],
      tiles = [[Some (ex_tile (0, 0)), None, None], [Some (ex_tile (0, - 1)), None, None],
               [Some (ex_tile (0, - 2)), Some (ex_tile (1, - 2)), Some (ex_tile (2, - 2))]],
      last_ver = (0, 0), last_hor = (0, 0), ovrlp = 1 / 2,
      acqOrder = [(0, 0), (1, 0), (2, 0), (2, 1), (2, 2)],
      shift_tile_dep_tiles = [], px_size = (1, 1), size_yx = (2, 2), posX = 2, posY = 2,
      pos_prev_x = 1, osize = 1, tsize = 1\<rparr>"
  by (simp add: ordering_session_def add_defs grid_defs est_defs registrar_init_def
      no_drift_def Let_def)

text \<open>
  After the five tiles of \<open>ordering_session\<close>, a tile at (2, -1) is closest to the tile
  of slot (2, 2) and above it: its slot is (1, 2), the slots (0, 2) and (1, 1) are empty,
  and \<^verbatim>\<open>addTile\<close> raises.
\<close>

theorem addTile_ordering_error_witness:
  "\<exists>s'. addTile no_drift (session_state no_drift registrar_init ordering_session)
            (ex_tile (2, - 1)) None = Raise (ValueError OrderingError) s'
        \<and> tiles s' = tiles (session_state no_drift registrar_init ordering_session)
        \<and> shifts s' = shifts (session_state no_drift registrar_init ordering_session)
        \<and> acqOrder s' = acqOrder (session_state no_drift registrar_init ordering_session)"
proof -
  let ?S = "session_state no_drift registrar_init ordering_session"
  let ?S1 = "?S\<lparr>posY := 1, posX := 2, pos_prev_x := 2, ovrlp := 1 / 2, osize := 1, tsize := 1\<rparr>"
  have loc: "locate ?S (ex_tile (2, - 1)) = Return () ?S1"
    unfolding ordering_session_state
    by (simp add: locate_defs grid_defs Let_def)
  have cond: "1 \<le> posY ?S1 \<and> 1 \<le> posX ?S1
      \<and> get2 (tiles ?S1) (posY ?S1 - 1) (posX ?S1) = Inr None
      \<and> get2 (tiles ?S1) (posY ?S1) (posX ?S1 - 1) = Inr None"
    unfolding ordering_session_state by (simp add: grid_defs)
  note oe = addTile_ordering_error [of no_drift ?S "ex_tile (2, - 1)" None]
  from oe loc cond obtain s' where
    r: "addTile no_drift ?S (ex_tile (2, - 1)) None = Raise (ValueError OrderingError) s'"
    by auto
  with oe have "tiles s' = tiles ?S \<and> shifts s' = shifts ?S \<and> acqOrder s' = acqOrder ?S"
    by blast
  with r show ?thesis by blast
qed

subsection \<open>The shape of the session\<close>

lemma set2_origin:
  assumes "set2 g r c v = Inr g'" and "get2 g 0 0 = Inr x"
  shows "get2 g' 0 0 = Inr x \<or> get2 g' 0 0 = Inr v"
  using assms
  by (auto simp: set2_def get2_def py_get_def py_set_def py_index_def nth_list_update
      split: sum.splits option.splits if_splits)

lemma compute_registration_outcome:
  assumes "compute_registration ms s tile row col = Raise e s'
           \<or> compute_registration ms s tile row col = Return u s'"
  shows "size_yx s' = size_yx s
         \<and> (tiles s' = tiles s \<or> set2 (tiles s) row col (Some tile) = Inr (tiles s'))"
  using assms unfolding compute_registration_def Let_def
  by (auto split: sum.splits bool.splits outcome.splits prod.splits
      dest!: horizontal_estimate_raise horizontal_estimate_return
             vertical_estimate_raise vertical_estimate_return)

lemma locate_outcome:
  assumes "get2 (tiles s) 0 0 = Inr (Some t00)"
    and "locate s tile = Raise e s' \<or> locate s tile = Return u s'"
  shows "grid_grows (tiles s) (tiles s') \<and> size_yx s' = size_yx s
         \<and> shift_tile_dep_tiles s' = shift_tile_dep_tiles s"
  using assms unfolding locate_def Let_def
  by (auto split: sum.splits if_splits prod.splits outcome.splits
      simp: grid_grows_refl
      dest!: insert_slot_outcome [OF disjI1] insert_slot_outcome [OF disjI2]
             compute_overlap_outcome)

lemma locate_shape_mismatch:
  assumes "get2 (tiles s) 0 0 = Inr (Some t00)" and "shape (pixels tile) \<noteq> shape (pixels t00)"
  shows "locate s tile = Raise (ValueError ShapeMismatch) s"
  using assms by (simp add: locate_def)

lemma locate_shape_checked:
  assumes "get2 (tiles s) 0 0 = Inr (Some t00)" and "locate s tile = Return u s1"
  shows "shape (pixels tile) = shape (pixels t00)"
  using assms by (auto simp: locate_def split: if_splits)


lemma established_grows:
  "established sh s \<Longrightarrow> grid_grows (tiles s) (tiles s') \<Longrightarrow> size_yx s' = size_yx s
     \<Longrightarrow> established sh s'"
  by (auto simp: established_def grid_grows_def)

lemma addTile_step_established:
  assumes est: "established sh s0"
    and f: "\<And>x. tiles (f x) = tiles x \<and> size_yx (f x) = size_yx x"
  shows "established sh
           (outcome_state
              (case locate s0 tile of
                 Raise e s' \<Rightarrow> Raise e s'
               | Return _ s1 \<Rightarrow> compute_registration ms (f s1) tile (posY s1) (posX s1)))"
proof -
  from est obtain t00 where
    o: "get2 (tiles s0) 0 0 = Inr (Some t00)" and sh: "shape (pixels t00) = sh"
    by (auto simp: established_def)
  show ?thesis
  proof (cases "locate s0 tile")
    case (Raise e s')
    from locate_outcome [OF o disjI1, OF Raise] est have "established sh s'"
      by (auto intro: established_grows)
    with Raise show ?thesis by simp
  next
    case (Return u s1)
    from locate_outcome [OF o disjI2, OF Return] est have e1: "established sh s1"
      by (auto intro: established_grows)
    from locate_shape_checked [OF o Return] sh have ts: "shape (pixels tile) = sh" by simp
    from e1 f have e2: "established sh (f s1)" by (simp add: established_def)
    then obtain t where o2: "get2 (tiles (f s1)) 0 0 = Inr (Some t)" and sh2: "shape (pixels t) = sh"
      by (auto simp: established_def)
    have "established sh s''"
      if c: "compute_registration ms (f s1) tile (posY s1) (posX s1) = Raise e s''
           \<or> compute_registration ms (f s1) tile (posY s1) (posX s1) = Return v s''" for e v s''
    proof -
      from compute_registration_outcome [OF c]
      have sz: "size_yx s'' = size_yx (f s1)"
        and t: "tiles s'' = tiles (f s1)
                \<or> set2 (tiles (f s1)) (posY s1) (posX s1) (Some tile) = Inr (tiles s'')"
        by simp_all
      from t show ?thesis
      proof
        assume "tiles s'' = tiles (f s1)"
        with e2 sz show ?thesis by (simp add: established_def)
      next
        assume "set2 (tiles (f s1)) (posY s1) (posX s1) (Some tile) = Inr (tiles s'')"
        from set2_origin [OF this o2] sh2 ts e2 sz show ?thesis
          by (auto simp: established_def)
      qed
    qed
    with Return show ?thesis
      by (cases "compute_registration ms (f s1) tile (posY s1) (posX s1)") auto
  qed
qed

lemma addTile_established:
  assumes "established sh s"
  shows "established sh (outcome_state (addTile ms s tile d))"
proof (cases d)
  case None
  from addTile_step_established [OF assms, where f = "\<lambda>x. x"] None show ?thesis
    by (simp add: addTile_unfold)
next
  case (Some ds)
  from assms have "established sh (s\<lparr>shift_tile_dep_tiles := shift_tile_dep_tiles s @ [[]]\<rparr>)"
    by (simp add: established_def)
  from addTile_step_established [OF this,
      where f = "\<lambda>x. x\<lparr>shift_tile_dep_tiles := shift_tile_dep_tiles s
                 @ [map (\<lambda>dt. (fst (md_pos dt) - fst (md_pos tile),
                               snd (md_pos dt) - snd (md_pos tile))) ds]\<rparr>"]
    Some show ?thesis
    by (simp add: addTile_unfold)
qed

lemma session_state_established:
  "established sh s \<Longrightarrow> established sh (session_state ms s calls)"
proof (induction calls arbitrary: s)
  case Nil
  then show ?case by simp
next
  case (Cons c calls)
  obtain t d where c: "c = (t, d)" by (cases c)
  from Cons.prems have "established sh (outcome_state (addTile ms s t d))"
    by (rule addTile_established)
  from Cons.IH [OF this] c show ?case by simp
qed

lemma first_call_established:
  "established (shape (pixels t0)) (outcome_state (addTile ms registrar_init t0 d0))"
proof (cases d0)
  case None
  then show ?thesis by (simp add: first_addTile established_def first_state_def grid_defs)
next
  case (Some ds)
  have "locate (registrar_init\<lparr>shift_tile_dep_tiles := [[]]\<rparr>) t0 =
      Return () (registrar_init\<lparr>shift_tile_dep_tiles := [[]], size_yx := shape (pixels t0),
         px_size := md_pixel_size t0, posX := 0, posY := 0, pos_prev_x := 0\<rparr>)"
    by (simp add: locate_def registrar_init_def get2_def py_get_def py_index_def)
  with Some show ?thesis
    by (simp add: addTile_unfold registrar_init_def compute_registration_def ordering_guard_def
        horizontal_estimate_def vertical_estimate_def set2_def get2_def py_get_def py_set_def
        py_index_def established_def)
qed

text \<open>
  C6. In every session (whatever the outcome of each call, the caller going on after an
  error or not), the first call of \<^verbatim>\<open>addTile\<close> establishes the shape of the
  session: after it and any further calls \<^verbatim>\<open>self.size\<close> is the shape of the first
  tile, and \<^verbatim>\<open>addTile\<close> of a tile of another shape raises the ShapeMismatch error.
  The registrar it leaves is the registrar before the call, but for one empty list
  appended to the offsets of dependent tiles when a list of dependent tiles was passed:
  the grids are unchanged.
\<close>

theorem addTile_shape_mismatch:
  assumes "s = session_state ms registrar_init ((t0, d0) # calls)"
    and "shape (pixels t) \<noteq> shape (pixels t0)"
  shows "size_yx s = shape (pixels t0)
         \<and> addTile ms s t d =
             Raise (ValueError ShapeMismatch)
               (case d of
                  None \<Rightarrow> s
                | Some _ \<Rightarrow> s\<lparr>shift_tile_dep_tiles := shift_tile_dep_tiles s @ [[]]\<rparr>)"
proof -
  from assms(1) have "established (shape (pixels t0)) s"
    by (simp add: session_state_established first_call_established)
  then obtain t00 where sz: "size_yx s = shape (pixels t0)"
    and o: "get2 (tiles s) 0 0 = Inr (Some t00)" and sh: "shape (pixels t00) = shape (pixels t0)"
    by (auto simp: established_def)
  from sh assms(2) have ne: "shape (pixels t) \<noteq> shape (pixels t00)" by simp
  have "locate s0 t = Raise (ValueError ShapeMismatch) s0" if "tiles s0 = tiles s" for s0
    using locate_shape_mismatch [of s0 t00 t] o ne that by simp
  then show ?thesis
    using sz by (cases d) (simp_all add: addTile_unfold)
qed

text \<open>
  Two tiles of 2 by 2 pixels, then a tile of 1 by 2 pixels with an empty list of
  dependent tiles.
\<close>

theorem addTile_shape_mismatch_witness:
  "shape (pixels small_tile) \<noteq> shape (pixels (ex_tile (0, 0)))
   \<and> size_yx (session_state no_drift registrar_init [(ex_tile (0, 0), None), (ex_tile (1, 0), None)])
       = shape (pixels (ex_tile (0, 0)))
   \<and> addTile no_drift
        (session_state no_drift registrar_init [(ex_tile (0, 0), None), (ex_tile (1, 0), None)])
        small_tile (Some [])
       = Raise (ValueError ShapeMismatch)
           ((session_state no_drift registrar_init [(ex_tile (0, 0), None), (ex_tile (1, 0), None)])
              \<lparr>shift_tile_dep_tiles :=
                  shift_tile_dep_tiles
                    (session_state no_drift registrar_init
                       [(ex_tile (0, 0), None), (ex_tile (1, 0), None)]) @ [[]]\<rparr>)"
proof -
  have h: "shape (pixels small_tile) \<noteq> shape (pixels (ex_tile (0, 0)))"
    by (simp add: small_tile_def shape_def)
  from addTile_shape_mismatch [OF refl h, of no_drift None "[(ex_tile (1, 0), None)]" "Some []"] h
  show ?thesis by simp
qed

subsection \<open>The reconciliation of the estimates\<close>

lemma reconcile_spec: "reconcile pos match pos2 match2 oxy = spec_reconcile pos match pos2 match2 oxy"
  by (auto simp: reconcile_def spec_reconcile_def score_gt_def split: option.splits)

lemma get2_set2_same: "set2 g r c v = Inr g' \<Longrightarrow> get2 g' r c = Inr v"
  by (auto simp: set2_def get2_def py_get_def py_set_def py_index_def
      split: sum.splits option.splits if_splits)

text \<open>
  C1, amended. Whenever \<^verbatim>\<open>_compute_registration\<close> returns, the position it has
  stored at the slot of the tile is the one the case analysis of the specification gives
  from the estimate of the left or right neighbour and the estimate of the neighbour
  above, as the code computes them: the ideal grid position without any estimate (as for
  slot (0, 0), and not only there), the one estimate when there is one, the truncated
  average when both matches exceed GOOD\_MATCH, the ideal grid position when both matches
  are exactly 0, and the estimate of the higher match otherwise (the one on the left or
  right when neither match is higher).
\<close>

theorem reconciliation_cases:
  assumes "compute_registration ms s tile row col = Return () s'"
  shows "\<exists>g pos match s2 pos2 match2 s3.
           set2 (tiles s) row col (Some tile) = Inr g
         \<and> horizontal_estimate ms (s\<lparr>tiles := g\<rparr>) row col = Return (pos, match) s2
         \<and> vertical_estimate ms s2 row col = Return (pos2, match2) s3
         \<and> get2 (shifts s') row col
             = Inr (Some (spec_reconcile pos match pos2 match2 (ideal_position s row col)))"
  using assms unfolding compute_registration_def Let_def ideal_position_def
  by (auto split: sum.splits bool.splits outcome.splits prod.splits
      simp: reconcile_spec dest: get2_set2_same)


lemma both_session_state:
  "session_state no_drift registrar_init both_session =
     \<lparr>nx = 2, ny = 1,
      coords_ver = [[None, None], [None, None]],
      coords_hor = [[None, None], [None, None]],
      shifts = [[Some (0, 0), Some (1, 0)], [Some (0, 1), None]],
      tiles = [[Some (ex_tile (0, 0)), Some (ex_tile (1, 1 / 2))], [Some (ex_tile (0, - 1)), None]],
      last_ver = (0, 0), last_hor = (0, 0), ovrlp = 1 / 2,
      acqOrder = [(0, 0), (0, 1), (1, 0)], shift_tile_dep_tiles = [],
      px_size = (1, 1), size_yx = (2, 2), posX = 0, posY = 1, pos_prev_x = 0,
      osize = 1, tsize = 1\<rparr>"
  by (simp add: both_session_def add_defs grid_defs est_defs registrar_init_def no_drift_def Let_def)

lemma above_session_state:
  "session_state no_drift registrar_init above_session =
     \<lparr>nx = 2, ny = 1,
      coords_ver = [[None, None], [None, None]],
      coords_hor = [[None, None], [None, None]],
      shifts = [[Some (0, 0), None], [Some (0, 1), Some (1, 1)]],
      tiles = [[Some (ex_tile (0, 0)), None], [Some (ex_tile (0, - 1)), Some (ex_tile (1, - 1))]],
      last_ver = (0, 0), last_hor = (0, 0), ovrlp = 1 / 2,
      acqOrder = [(0, 0), (1, 0), (1, 1)], shift_tile_dep_tiles = [],
      px_size = (1, 1), size_yx = (2, 2), posX = 1, posY = 1, pos_prev_x = 0,
      osize = 1, tsize = 1\<rparr>"
  by (simp add: above_session_def add_defs grid_defs est_defs registrar_init_def no_drift_def Let_def)


text \<open>
  C1, as stated, says that only slot (0, 0) is without any estimate. After the three tiles
  of \<open>above_session\<close>, a fourth tile at (1, -1/2) is closest to the tile of slot (1, 1)
  and above it: it is located at slot (0, 1), where neither a horizontal estimate (the
  closest tile is in the same column) nor a vertical one (row 0) exists, and it is stored
  at the ideal position (0, 0).
\<close>

theorem neither_estimate_counterexample:
  "locate (session_state no_drift registrar_init above_session) (ex_tile (1, - 1 / 2))
     = Return () above_located
   \<and> posY above_located = 0 \<and> posX above_located = 1
   \<and> set2 (tiles above_located) 0 1 (Some (ex_tile (1, - 1 / 2))) = Inr (tiles above_stored)
   \<and> horizontal_estimate no_drift above_stored 0 1 = Return (None, Score 0) above_stored
   \<and> vertical_estimate no_drift above_stored 0 1 = Return (None, Score 0) above_stored
   \<and> (case addTile no_drift (session_state no_drift registrar_init above_session)
              (ex_tile (1, - 1 / 2)) None of
         Raise e s \<Rightarrow> False
       | Return u s \<Rightarrow> get2 (shifts s) 0 1 = Inr (Some (0, 0)))"
  unfolding above_stored_def above_located_def above_session_state
  by (simp add: add_defs grid_defs hypot_less_iff Let_def)

text \<open>
  A tile located at slot (1, 1) with a neighbour on the left and a neighbour above.
\<close>

theorem reconciliation_cases_witness:
  "\<exists>s'. compute_registration no_drift both_located (ex_tile (1, - 1)) 1 1 = Return () s'
      \<and> (\<exists>g pos match s2 pos2 match2 s3.
            set2 (tiles both_located) 1 1 (Some (ex_tile (1, - 1))) = Inr g
          \<and> horizontal_estimate no_drift (both_located\<lparr>tiles := g\<rparr>) 1 1 = Return (pos, match) s2
          \<and> vertical_estimate no_drift s2 1 1 = Return (pos2, match2) s3
          \<and> get2 (shifts s') 1 1
              = Inr (Some (spec_reconcile pos match pos2 match2 (ideal_position both_located 1 1))))"
proof -
  have "\<exists>s'. compute_registration no_drift both_located (ex_tile (1, - 1)) 1 1 = Return () s'"
    unfolding both_located_def both_session_state
    by (simp add: add_defs est_defs grid_defs no_drift_def Let_def)
  then obtain s' where
    h: "compute_registration no_drift both_located (ex_tile (1, - 1)) 1 1 = Return () s'" ..
  from h reconciliation_cases [OF h] show ?thesis by blast
qed

subsection \<open>Tiles located outside the grid\<close>

lemma compute_registration_stores:
  assumes guard: "ordering_guard (tiles s) row col = Inr False"
    and st: "set2 (tiles s) row col (Some tile) = Inr g"
    and he: "horizontal_estimate ms (s\<lparr>tiles := g\<rparr>) row col = Return (pos, match) s2"
    and ve: "vertical_estimate ms s2 row col = Return (pos2, match2) s3"
    and cell: "get2 (shifts s) row col = Inr c"
  shows "\<exists>sh q. compute_registration ms s tile row col
               = Return () (s3\<lparr>shifts := sh, acqOrder := acqOrder s @ [(row, col)]\<rparr>)
            \<and> set2 (shifts s) row col (Some q) = Inr sh"
proof -
  from horizontal_estimate_return [OF he] vertical_estimate_return [OF ve]
  have f: "shifts s3 = shifts s" "acqOrder s3 = acqOrder s" by simp_all
  let ?q = "reconcile pos match pos2 match2
          (py_int (real_of_int col * (real (snd (size_yx s)) * (1 - ovrlp s))),
           py_int (real_of_int row * (real (fst (size_yx s)) * (1 - ovrlp s))))"
  from set2_succeeds [OF cell] obtain sh where sh: "set2 (shifts s) row col (Some ?q) = Inr sh"
    by blast
  have "compute_registration ms s tile row col
          = Return () (s3\<lparr>shifts := sh, acqOrder := acqOrder s @ [(row, col)]\<rparr>)"
    unfolding compute_registration_def Let_def
    by (simp add: guard st he ve f sh)
  with sh show ?thesis by blast
qed

lemma below_locate:
  "locate (first_state (ex_tile (0, 0))) (ex_tile (0, - 1)) =
     Return () ((first_state (ex_tile (0, 0)))
       \<lparr>posY := 1, posX := 0, tiles := [[Some (ex_tile (0, 0))], [None]],
        coords_ver := [[None], [None]], coords_hor := [[None], [None]],
        shifts := [[Some (0, 0)], [None]],
        pos_prev_x := 0, ovrlp := 1 / 2, osize := 1, tsize := 1\<rparr>)"
  by (simp add: locate_defs grid_defs first_state_def Let_def)

lemma below_addTile:
  "\<exists>s q. addTile ms (first_state (ex_tile (0, 0))) (ex_tile (0, - 1)) None = Return () s
      \<and> tiles s = [[Some (ex_tile (0, 0))], [Some (ex_tile (0, - 1))]]
      \<and> shifts s = [[Some (0, 0)], [Some q]]
      \<and> acqOrder s = [(0, 0), (1, 0)] \<and> size_yx s = (2, 2) \<and> px_size s = (1, 1)
      \<and> shift_tile_dep_tiles s = []"
proof -
  let ?t = "ex_tile (0, - 1)"
  let ?L = "(first_state (ex_tile (0, 0)))
       \<lparr>posY := 1, posX := 0, tiles := [[Some (ex_tile (0, 0))], [None]],
        coords_ver := [[None], [None]], coords_hor := [[None], [None]],
        shifts := [[Some (0, 0)], [None]],
        pos_prev_x := 0, ovrlp := 1 / 2, osize := 1, tsize := 1\<rparr>"
  let ?g = "[[Some (ex_tile (0, 0))], [Some ?t]]"
  let ?L' = "?L\<lparr>tiles := ?g\<rparr>"
  have he: "horizontal_estimate ms ?L' 1 0 = Return (None, Score 0) ?L'"
    by (simp add: horizontal_estimate_def first_state_def)
  have "\<exists>p m s'. pos_to_top ms ?L' 1 0 = Return (Some p, m) s'"
    by (rule pos_to_top_returns [where pp = "(0, 0)" and prev_tile = "ex_tile (0, 0)"
          and tile = ?t and cv = None])
       (simp_all add: first_state_def grid_defs EXTREME_SHIFT_def)
  then obtain p m s' where h: "pos_to_top ms ?L' 1 0 = Return (Some p, m) s'"
    by blast
  from pos_to_top_return [OF h]
  have f: "tiles s' = ?g" "size_yx s' = (2, 2)" "px_size s' = (1, 1)" "shift_tile_dep_tiles s' = []"
    by (simp_all add: first_state_def shape_def)
  have ve: "vertical_estimate ms ?L' 1 0 = Return (Some p, m) s'"
    using h by (simp add: vertical_estimate_def first_state_def grid_defs)
  have "\<exists>sh q. compute_registration ms ?L ?t 1 0
               = Return () (s'\<lparr>shifts := sh, acqOrder := acqOrder ?L @ [(1, 0)]\<rparr>)
            \<and> set2 (shifts ?L) 1 0 (Some q) = Inr sh"
    by (rule compute_registration_stores [OF _ _ he ve, where c = None])
       (simp_all add: first_state_def grid_defs ordering_guard_def)
  then obtain sh q where cr: "compute_registration ms ?L ?t 1 0
               = Return () (s'\<lparr>shifts := sh, acqOrder := acqOrder ?L @ [(1, 0)]\<rparr>)"
     and sh: "set2 (shifts ?L) 1 0 (Some q) = Inr sh" by blast
  from sh have sh': "sh = [[Some (0, 0)], [Some q]]"
    by (simp add: grid_defs)
  have "addTile ms (first_state (ex_tile (0, 0))) ?t None = compute_registration ms ?L ?t (posY ?L) (posX ?L)"
    unfolding addTile_unfold below_locate by simp
  also have "\<dots> = compute_registration ms ?L ?t 1 0" by simp
  finally have "addTile ms (first_state (ex_tile (0, 0))) ?t None
       = Return () (s'\<lparr>shifts := sh, acqOrder := acqOrder ?L @ [(1, 0)]\<rparr>)"
    using cr by simp
  then show ?thesis
    using f sh' by (auto simp: first_state_def)
qed

lemma ceiling_minus_one_real: "\<lceil>- 1 :: real\<rceil> = - 1"
  by (simp add: ceiling_def)

lemma above_addTile:
  assumes "tiles s = [[Some (ex_tile (0, 0))], [Some (ex_tile (0, - 1))]]"
    and "shifts s = [[Some (0, 0)], [Some q]]"
    and "acqOrder s = [(0, 0), (1, 0)]" and "size_yx s = (2, 2)" and "px_size s = (1, 1)"
  shows "\<exists>s'. addTile ms s (ex_tile (0, 1)) None = Return () s'
      \<and> posY s' = - 1 \<and> posX s' = 0
      \<and> tiles s' = [[Some (ex_tile (0, 0))], [Some (ex_tile (0, 1))]]
      \<and> shifts s' = [[Some (0, 0)], [Some (0, - 1)]]
      \<and> acqOrder s' = [(0, 0), (1, 0), (- 1, 0)]"
  using assms
  by (simp add: addTile_def locate_defs compute_registration_def ordering_guard_def
      horizontal_estimate_def vertical_estimate_def pos_to_top_def reconcile_def grid_defs Let_def
      ceiling_minus_one_real)


text \<open>
  C10. Whatever \<^verbatim>\<open>MeasureShift\<close> returns, a tile on the left of the first tile is
  located at column -1, and a tile above the first tile at row -1, without any error and
  without growth of the grid: the negative index selects the last column (here column 0,
  whose tile, the first one, is replaced) or the last row (here row 1, whose tile and
  position are replaced), and the slot is appended to the acquisition order.
\<close>

theorem negative_index_accepted:
  "(\<exists>s. run ms registrar_init [(ex_tile (0, 0), None), (ex_tile (- 1, 0), None)] = Return () s
        \<and> posY s = 0 \<and> posX s = - 1
        \<and> tiles s = [[Some (ex_tile (- 1, 0))]]
        \<and> acqOrder s = [(0, 0), (0, - 1)])
   \<and> (\<exists>s. run ms registrar_init
              [(ex_tile (0, 0), None), (ex_tile (0, - 1), None), (ex_tile (0, 1), None)]
            = Return () s
        \<and> posY s = - 1 \<and> posX s = 0
        \<and> tiles s = [[Some (ex_tile (0, 0))], [Some (ex_tile (0, 1))]]
        \<and> shifts s = [[Some (0, 0)], [Some (0, - 1)]]
        \<and> acqOrder s = [(0, 0), (1, 0), (- 1, 0)])"
proof
  from left_addTile [of ms] obtain s where
    "addTile ms (first_state (ex_tile (0, 0))) (ex_tile (- 1, 0)) None = Return () s"
    "posY s = 0" "posX s = - 1" "tiles s = [[Some (ex_tile (- 1, 0))]]"
    "acqOrder s = [(0, 0), (0, - 1)]"
    by blast
  then show "\<exists>s. run ms registrar_init [(ex_tile (0, 0), None), (ex_tile (- 1, 0), None)] = Return () s
        \<and> posY s = 0 \<and> posX s = - 1
        \<and> tiles s = [[Some (ex_tile (- 1, 0))]]
        \<and> acqOrder s = [(0, 0), (0, - 1)]"
    by (simp add: first_addTile)
next
  from below_addTile [of ms] obtain s2 q where
    a2: "addTile ms (first_state (ex_tile (0, 0))) (ex_tile (0, - 1)) None = Return () s2"
    and f2: "tiles s2 = [[Some (ex_tile (0, 0))], [Some (ex_tile (0, - 1))]]"
      "shifts s2 = [[Some (0, 0)], [Some q]]"
      "acqOrder s2 = [(0, 0), (1, 0)]" "size_yx s2 = (2, 2)" "px_size s2 = (1, 1)"
    by blast
  from above_addTile [OF f2, of ms] obtain s3 where
    "addTile ms s2 (ex_tile (0, 1)) None = Return () s3"
    "posY s3 = - 1" "posX s3 = 0"
    "tiles s3 = [[Some (ex_tile (0, 0))], [Some (ex_tile (0, 1))]]"
    "shifts s3 = [[Some (0, 0)], [Some (0, - 1)]]"
    "acqOrder s3 = [(0, 0), (1, 0), (- 1, 0)]"
    by blast
  with a2 show "\<exists>s. run ms registrar_init
              [(ex_tile (0, 0), None), (ex_tile (0, - 1), None), (ex_tile (0, 1), None)]
            = Return () s
        \<and> posY s = - 1 \<and> posX s = 0
        \<and> tiles s = [[Some (ex_tile (0, 0))], [Some (ex_tile (0, 1))]]
        \<and> shifts s = [[Some (0, 0)], [Some (0, - 1)]]
        \<and> acqOrder s = [(0, 0), (1, 0), (- 1, 0)]"
    by (simp add: first_addTile)
qed

text \<open>
  On a grid of a single row the tile above the first one is stored, over the first tile,
  before the read of \<^verbatim>\<open>tiles[row - 1][col]\<close> at row -2 fails.
\<close>

lemma above_single_row_raises:
  "\<exists>s. addTile ms (first_state (ex_tile (0, 0))) (ex_tile (0, 1)) None = Raise IndexError s
      \<and> posY s = - 1 \<and> tiles s = [[Some (ex_tile (0, 1))]] \<and> acqOrder s = [(0, 0)]"
  by (simp add: addTile_def locate_defs compute_registration_def ordering_guard_def
      horizontal_estimate_def vertical_estimate_def grid_defs Let_def first_state_def)

subsection \<open>Dependent tiles in sessions that always pass a list\<close>

lemma compute_registration_return_frame:
  assumes "compute_registration ms s tile row col = Return u s'"
  shows "shift_tile_dep_tiles s' = shift_tile_dep_tiles s
         \<and> acqOrder s' = acqOrder s @ [(row, col)]"
  using assms unfolding compute_registration_def Let_def
  by (auto split: sum.splits bool.splits outcome.splits prod.splits
      dest!: horizontal_estimate_return vertical_estimate_return)

lemma addTile_Some_return:
  assumes "addTile ms s tile (Some ds) = Return u s'"
  shows "shift_tile_dep_tiles s' = shift_tile_dep_tiles s @ [offsets tile ds]
         \<and> length (acqOrder s') = Suc (length (acqOrder s))"
proof -
  from assms obtain s1 where
    l: "locate (s\<lparr>shift_tile_dep_tiles := shift_tile_dep_tiles s @ [[]]\<rparr>) tile = Return () s1"
    and c: "compute_registration ms
              (s1\<lparr>shift_tile_dep_tiles := shift_tile_dep_tiles s @ [offsets tile ds]\<rparr>)
              tile (posY s1) (posX s1) = Return u s'"
    by (auto simp: addTile_unfold offsets_def split: outcome.splits)
  from locate_return [OF l] compute_registration_return_frame [OF c]
  show ?thesis by simp
qed

lemma run_Some_dependents:
  assumes "run ms s calls = Return u s'" and "\<forall>c \<in> set calls. snd c \<noteq> None"
  shows "shift_tile_dep_tiles s'
           = shift_tile_dep_tiles s @ map (\<lambda>c. offsets (fst c) (the (snd c))) calls
         \<and> length (acqOrder s') = length (acqOrder s) + length calls"
  using assms
proof (induction calls arbitrary: s)
  case Nil
  then show ?case by simp
next
  case (Cons c calls)
  from Cons.prems(2) obtain t ds where c: "c = (t, Some ds)" by (cases c) auto
  from Cons.prems(1) c obtain v s1 where
    a: "addTile ms s t (Some ds) = Return v s1" and r: "run ms s1 calls = Return u s'"
    by (auto split: outcome.splits)
  from Cons.prems(2) have "\<forall>c \<in> set calls. snd c \<noteq> None" by simp
  from Cons.IH [OF r this] addTile_Some_return [OF a] c show ?case by simp
qed

lemma tile_positions_loop_length:
  "tile_positions_loop s fp order = Inr ps \<Longrightarrow> length ps = length order"
  by (induction order arbitrary: ps) (auto split: sum.splits option.splits)

text \<open>
  Where every call of a session passes a list of dependent tiles and returns, the two
  lists are aligned: there is one entry for each tile, and each dependent tile is at the
  resolved position of its main tile plus its offset.
\<close>

lemma dependents_follow_main:
  assumes "run ms registrar_init calls = Return u s"
    and "\<forall>c \<in> set calls. snd c \<noteq> None"
    and "getPositions s = Inr (tps, dps)"
  shows "length tps = length calls
         \<and> dps = map (\<lambda>(p, c). map (\<lambda>sdt. (fst p + fst sdt, snd p + snd sdt))
                                  (offsets (fst c) (the (snd c))))
                    (zip tps calls)"
proof -
  from run_Some_dependents [OF assms(1,2)]
  have d: "shift_tile_dep_tiles s = map (\<lambda>c. offsets (fst c) (the (snd c))) calls"
    and n: "length (acqOrder s) = length calls"
    by (simp_all add: registrar_init_def)
  from assms(3) obtain fp where
    l: "tile_positions_loop s fp (acqOrder s) = Inr tps"
    and e: "dps = map (\<lambda>(t, sdts). dep_positions t sdts) (zip tps (shift_tile_dep_tiles s))"
    by (auto simp: getPositions_def Let_def split: sum.splits option.splits)
  from tile_positions_loop_length [OF l] n have len: "length tps = length calls" by simp
  have "map (\<lambda>(t, sdts). dep_positions t sdts) (zip tps (map f calls))
        = map (\<lambda>(p, c). dep_positions p (f c)) (zip tps calls)" for f :: "tile \<times> tile list option \<Rightarrow> (real \<times> real) list"
    by (simp add: zip_map2 case_prod_unfold comp_def)
  with e d len show ?thesis
    by (simp add: dep_positions_def)
qed

end
